theory Spec2Isabelle
  imports Main
begin

section \<open>JavaScript values\<close>

text \<open>
  Rule specifications, events, HTTP results and the Kafka configuration are all plain
  JSON-like JavaScript values. Numbers are restricted to integers (the status codes,
  limits and delays the rules use): \<open>JNum n\<close> is the number \<open>n\<close>, for an integer that
  JavaScript's double-precision numbers hold exactly, as they do every integer of
  magnitude up to \<open>2^53\<close>. \<open>JUndef\<close> is JavaScript's \<open>undefined\<close>, the value of a
  missing property. A string is a list of 8-bit characters. An object is an
  association list in the order \<open>Object.keys\<close> enumerates it, with distinct keys
  (JavaScript enumerates the keys that are array indices first; the model keeps a
  new key where it was added). Properties inherited from a prototype
  (\<open>constructor\<close>, \<open>toString\<close>, the array methods) are not part of the model,
  except where a definition says so.
\<close>

datatype jsv =
    JUndef
  | JNull
  | JBool bool
  | JNum int
  | JStr string
  | JArr "jsv list"
  | JObj "(string \<times> jsv) list"

datatype error =
    TypeError
  | SyntaxError
  | NoTopic string
  | InvalidRetryCondition string
  | InvalidMatchRegex string
  | InvalidMatchObject
  | InvalidExec string nat
  | MissingBrokerList
  | KeyRequired
  | DuplicateKey string
  | Rejected jsv

text \<open>
  The functions that assemble JavaScript source text and hand it to \<open>new Function\<close>
  have three outcomes in the model. \<open>Throws e\<close>: the call throws \<open>e\<close>. \<open>Built x\<close>:
  the call returns, and \<open>x\<close> describes what the generated code computes. \<open>Beyond\<close>:
  the generated text lies outside the fragment of JavaScript the model reads (a
  spliced string with a quote, a backslash or a line break in it, a regular
  expression with syntax the model does not know), and the model says nothing about
  the call: it may throw, or build a function of any behaviour.
\<close>

datatype 'a outcome = Throws error | Built 'a | Beyond

fun built :: "'a outcome \<Rightarrow> bool" where
  "built (Built x) = True"
| "built (Throws e) = False"
| "built Beyond = False"

text \<open>Truthiness, as \<open>!x\<close>, \<open>x || y\<close> and \<open>x && y\<close> use it.\<close>

fun truthy :: "jsv \<Rightarrow> bool" where
  "truthy JUndef = False"
| "truthy JNull = False"
| "truthy (JBool b) = b"
| "truthy (JNum n) = (n \<noteq> 0)"
| "truthy (JStr s) = (s \<noteq> [])"
| "truthy (JArr _) = True"
| "truthy (JObj _) = True"

definition js_or :: "jsv \<Rightarrow> jsv \<Rightarrow> jsv" where
  "js_or a b = (if truthy a then a else b)"

subsection \<open>Decimal numerals\<close>

definition is_digit :: "char \<Rightarrow> bool" where
  "is_digit c = (c \<in> set ''0123456789'')"

definition digit_char :: "nat \<Rightarrow> char" where
  "digit_char d = ''0123456789'' ! d"

definition digit_val :: "char \<Rightarrow> nat" where
  "digit_val c = of_char c - 48"

function show_nat :: "nat \<Rightarrow> string" where
  "show_nat n = (if n < 10 then [digit_char n] else show_nat (n div 10) @ [digit_char (n mod 10)])"
  by pat_completeness auto
termination
  by (relation "measure id") auto

declare show_nat.simps [simp del]

text \<open>
  \<open>Number.prototype.toString\<close> on an integer: a run of digits below \<open>10^21\<close>, that
  is up to 21 digits, and from there on the exponent notation, \<open>1e+21\<close> or
  \<open>1.5e+21\<close>: the first digit, the other digits without the trailing zeros after
  a point, and the number of digits that follow the first. (JavaScript prints the
  digits of the shortest decimal that reads back as the same double-precision
  number. For an integer of magnitude below \<open>2^53\<close> these are the digits of the
  integer, which is what the model prints for every integer.)
\<close>

definition exponent_form :: "nat \<Rightarrow> string" where
  "exponent_form n =
     (let digits = show_nat n;
          significant = rev (dropWhile (\<lambda>c. c = CHR ''0'') (rev digits)) in
      hd significant # (if tl significant = [] then [] else CHR ''.'' # tl significant)
        @ ''e+'' @ show_nat (length digits - 1))"

definition show_num :: "nat \<Rightarrow> string" where
  "show_num n = (if length (show_nat n) \<le> 21 then show_nat n else exponent_form n)"

definition show_int :: "int \<Rightarrow> string" where
  "show_int i = (if i < 0 then CHR ''-'' # show_num (nat (- i)) else show_num (nat i))"

text \<open>The value of a string of decimal digits, read left to right.\<close>

definition read_nat :: "string \<Rightarrow> nat" where
  "read_nat s = foldl (\<lambda>acc c. 10 * acc + digit_val c) 0 s"

text \<open>
  A canonical array index: the decimal numeral of a natural number, without leading
  zeros.
\<close>

definition parse_idx :: "string \<Rightarrow> nat option" where
  "parse_idx k =
     (if k \<noteq> [] \<and> list_all is_digit k \<and> (hd k \<noteq> CHR ''0'' \<or> k = ''0'')
      then Some (read_nat k) else None)"

subsection \<open>Conversion to string and property access\<close>

text \<open>
  \<open>String(v)\<close>, as a template literal and \<open>RegExp.prototype.test\<close> apply it. An array
  joins its elements with commas, \<open>null\<close> and \<open>undefined\<close> elements giving the empty
  string.
\<close>

fun join :: "string \<Rightarrow> string list \<Rightarrow> string" where
  "join sep [] = []"
| "join sep [x] = x"
| "join sep (x # y # ys) = x @ sep @ join sep (y # ys)"

fun to_str :: "jsv \<Rightarrow> string" where
  "to_str JUndef = ''undefined''"
| "to_str JNull = ''null''"
| "to_str (JBool b) = (if b then ''true'' else ''false'')"
| "to_str (JNum n) = show_int n"
| "to_str (JStr s) = s"
| "to_str (JArr xs) =
     join '','' (map (\<lambda>x. if x = JUndef \<or> x = JNull then [] else to_str x) xs)"
| "to_str (JObj _) = ''[object Object]''"

text \<open>
  The conversion throws a TypeError on an object that has a property of its own
  called \<open>toString\<close>: in a value that came from JSON the property is no function, and
  the \<open>valueOf\<close> the conversion tries next does not return a primitive value. An
  array converts its elements in turn. \<open>to_str\<close> is the text for the values that
  convert, which include every string, number and boolean.
\<close>

fun stringable :: "jsv \<Rightarrow> bool" where
  "stringable (JObj kvs) = (map_of kvs ''toString'' = None)"
| "stringable (JArr xs) = list_all stringable xs"
| "stringable v = True"

definition to_string :: "jsv \<Rightarrow> error + string" where
  "to_string v = (if stringable v then Inr (to_str v) else Inl TypeError)"

text \<open>
  \<open>v[k]\<close>: reading a property of \<open>undefined\<close> or \<open>null\<close> throws a TypeError; a missing
  property of anything else is \<open>undefined\<close>.
\<close>

definition nth_or_undef :: "jsv list \<Rightarrow> nat \<Rightarrow> jsv" where
  "nth_or_undef xs i = (if i < length xs then xs ! i else JUndef)"

fun get_prop :: "jsv \<Rightarrow> string \<Rightarrow> error + jsv" where
  "get_prop JUndef k = Inl TypeError"
| "get_prop JNull k = Inl TypeError"
| "get_prop (JBool b) k = Inr JUndef"
| "get_prop (JNum n) k = Inr JUndef"
| "get_prop (JStr s) k =
     (if k = ''length'' then Inr (JNum (int (length s)))
      else case parse_idx k of
             Some i \<Rightarrow> Inr (if i < length s then JStr [s ! i] else JUndef)
           | None \<Rightarrow> Inr JUndef)"
| "get_prop (JArr xs) k =
     (if k = ''length'' then Inr (JNum (int (length xs)))
      else case parse_idx k of
             Some i \<Rightarrow> Inr (nth_or_undef xs i)
           | None \<Rightarrow> Inr JUndef)"
| "get_prop (JObj kvs) k = Inr (case map_of kvs k of Some v \<Rightarrow> v | None \<Rightarrow> JUndef)"

text \<open>\<open>o.k\<close> where a read of \<open>null\<close> or \<open>undefined\<close> cannot occur or is guarded.\<close>

definition field :: "jsv \<Rightarrow> string \<Rightarrow> jsv" where
  "field v k = (case get_prop v k of Inl e \<Rightarrow> JUndef | Inr x \<Rightarrow> x)"

text \<open>
  \<open>o.constructor === Object\<close> for an object of the model: it has no property of its
  own called \<open>constructor\<close>, which would hide the inherited one.
\<close>

definition plainObject :: "(string \<times> jsv) list \<Rightarrow> bool" where
  "plainObject kvs = (map_of kvs ''constructor'' = None)"

text \<open>
  \<open>o[k] = v\<close> on an object: an existing key keeps its place, a new key goes last.
  \<open>delete o[k]\<close> removes the key.
\<close>

fun assign :: "(string \<times> 'a) list \<Rightarrow> string \<Rightarrow> 'a \<Rightarrow> (string \<times> 'a) list" where
  "assign [] k v = [(k, v)]"
| "assign ((k', v') # kvs) k v =
     (if k' = k then (k, v) # kvs else (k', v') # assign kvs k v)"

definition set_field :: "jsv \<Rightarrow> string \<Rightarrow> jsv \<Rightarrow> jsv" where
  "set_field v k x = (case v of JObj kvs \<Rightarrow> JObj (assign kvs k x) | _ \<Rightarrow> v)"

definition delete_field :: "jsv \<Rightarrow> string \<Rightarrow> jsv" where
  "delete_field v k = (case v of JObj kvs \<Rightarrow> JObj (filter (\<lambda>kv. fst kv \<noteq> k) kvs) | _ \<Rightarrow> v)"

section \<open>Kafka factory: data-centre names\<close>

text \<open>
  \<open>KafkaFactory\<close>'s constructor refuses a configuration without
  \<open>metadata_broker_list\<close> and keeps the configuration object in \<open>_kafkaConf\<close>, after
  deleting \<open>default_topic_conf\<close> from its \<open>consumer\<close> and \<open>producer\<close> parts; the two
  getters read \<open>dc_name\<close>, \<open>consume_dc\<close> and \<open>produce_dc\<close> from it. The consumer and
  producer option tables the constructor also builds do not touch these three fields
  and are left out.
\<close>

record KafkaFactory =
  kafkaConf :: jsv

definition without_topic_conf :: "jsv \<Rightarrow> string \<Rightarrow> jsv" where
  "without_topic_conf conf part =
     (if truthy (field conf part)
      then set_field conf part (delete_field (field conf part) ''default_topic_conf'')
      else conf)"

definition newKafkaFactory :: "jsv \<Rightarrow> error + KafkaFactory" where
  "newKafkaFactory conf =
     (case get_prop conf ''metadata_broker_list'' of
        Inl e \<Rightarrow> Inl e
      | Inr b \<Rightarrow>
          if \<not> truthy b then Inl MissingBrokerList
          else Inr \<lparr> kafkaConf =
                 without_topic_conf (without_topic_conf conf ''consumer'') ''producer'' \<rparr>)"

definition conf_field :: "KafkaFactory \<Rightarrow> string \<Rightarrow> jsv" where
  "conf_field f k = (case get_prop (kafkaConf f) k of Inl _ \<Rightarrow> JUndef | Inr v \<Rightarrow> v)"

definition consumeDC :: "KafkaFactory \<Rightarrow> jsv" where
  "consumeDC f =
     js_or (js_or (conf_field f ''dc_name'') (conf_field f ''consume_dc'')) (JStr ''datacenter1'')"

definition produceDC :: "KafkaFactory \<Rightarrow> jsv" where
  "produceDC f =
     js_or (js_or (conf_field f ''dc_name'') (conf_field f ''produce_dc'')) (JStr ''datacenter1'')"

text \<open>
  The reading of the specification: the direction-specific name first, \<open>dc_name\<close> as
  the fallback.
\<close>

definition spec_consumeDC :: "KafkaFactory \<Rightarrow> jsv" where
  "spec_consumeDC f =
     js_or (js_or (conf_field f ''consume_dc'') (conf_field f ''dc_name'')) (JStr ''datacenter1'')"

definition spec_produceDC :: "KafkaFactory \<Rightarrow> jsv" where
  "spec_produceDC f =
     js_or (js_or (conf_field f ''produce_dc'') (conf_field f ''dc_name'')) (JStr ''datacenter1'')"

section \<open>Guaranteed producer\<close>

text \<open>
  \<open>GuaranteedProducer\<close> keeps \<open>_pending\<close>, a table from \<open>"<topic>:<key>"\<close> to the
  \<open>resolve\<close> function of the promise that waits for the delivery report. A resolver
  is identified by a number. The underlying \<open>kafka.Producer.produce\<close> belongs to
  node-rdkafka: it is a parameter that either returns a value or throws, and the calls
  it receives are logged in \<open>calls\<close>. Topic and key are the strings the service
  passes, or other values whose conversion to a string does not throw.
\<close>

datatype kafka_result = Returned jsv | Threw error

type_synonym kafka_produce = "jsv \<Rightarrow> jsv \<Rightarrow> jsv \<Rightarrow> jsv \<Rightarrow> kafka_result"

record GuaranteedProducer =
  pending :: "string \<rightharpoonup> nat"
  calls :: "(jsv \<times> jsv \<times> jsv \<times> jsv) list"

text \<open>
  A callback handed to \<open>process.nextTick\<close>: either it only rejects the promise, or it
  deletes the pending entry and then rejects.
\<close>

datatype tick = TickReject error | TickDeleteReject string error

definition reportKey :: "jsv \<Rightarrow> jsv \<Rightarrow> string" where
  "reportKey topic key = to_str topic @ '':'' @ to_str key"

text \<open>
  The synchronous part of \<open>produce\<close>: the state it leaves and the callback it
  schedules, if any. \<open>resolve\<close> is the resolver of the promise being created.
\<close>

definition produce ::
  "kafka_produce \<Rightarrow> GuaranteedProducer \<Rightarrow> nat \<Rightarrow> jsv \<Rightarrow> jsv \<Rightarrow> jsv \<Rightarrow> jsv
     \<Rightarrow> GuaranteedProducer \<times> tick option" where
  "produce super gp resolve topic part message key =
     (if \<not> truthy key then (gp, Some (TickReject KeyRequired))
      else if pending gp (reportKey topic key) \<noteq> None
        then (gp, Some (TickReject (DuplicateKey (reportKey topic key))))
      else
        let gp' = gp\<lparr> pending := (pending gp)(reportKey topic key \<mapsto> resolve),
                       calls := calls gp @ [(topic, part, message, key)] \<rparr>
        in case super topic part message key of
             Returned result \<Rightarrow>
               if result \<noteq> JBool True
               then (gp', Some (TickDeleteReject (reportKey topic key) (Rejected result)))
               else (gp', None)
           | Threw e \<Rightarrow> (gp', Some (TickDeleteReject (reportKey topic key) e)))"

text \<open>Running a scheduled callback: the state after it and the rejection reason.\<close>

fun run_tick :: "GuaranteedProducer \<Rightarrow> tick \<Rightarrow> GuaranteedProducer \<times> error" where
  "run_tick gp (TickReject e) = (gp, e)"
| "run_tick gp (TickDeleteReject k e) = (gp\<lparr> pending := (pending gp)(k := None) \<rparr>, e)"

text \<open>
  The \<open>delivery-report\<close> handler: an unknown key is only logged; a known one is removed
  and its resolver called.
\<close>

definition on_delivery_report ::
  "GuaranteedProducer \<Rightarrow> jsv \<Rightarrow> jsv \<Rightarrow> GuaranteedProducer \<times> nat option" where
  "on_delivery_report gp topic key =
     (case pending gp (reportKey topic key) of
        None \<Rightarrow> (gp, None)
      | Some resolve \<Rightarrow>
          (gp\<lparr> pending := (pending gp)(reportKey topic key := None) \<rparr>, Some resolve))"

section \<open>Retry-condition compiler\<close>

text \<open>
  \<open>_compileErrorCheckCondition\<close> assembles JavaScript source text and hands it to
  \<open>new Function\<close>. The model keeps the pieces of that text: one \<open>cond\<close> for each
  string \<open>createCondition\<close> returns, with the texts spliced into it, and one \<open>clause\<close>
  for each field of the stanza. \<open>code_text\<close> writes the source text out.

  A text spliced between quotes of the generated code (a field name between double
  quotes, a stringified option between single quotes) stands for itself when it
  holds neither that quote nor a backslash nor a line break (\<open>plain_dq\<close>,
  \<open>plain_sq\<close>). In any other text JavaScript reads an escape sequence, or whatever
  code the splice happens to form: such code is beyond the model.

  \<open>stringify\<close> is the \<open>json-stable-stringify\<close> package: a parameter, as it is a
  parameter of the generated function. It returns a string, or \<open>undefined\<close>.
\<close>

type_synonym stringify = "jsv \<Rightarrow> jsv"

datatype cond =
    StatusEq string      \<comment> \<open>\<open>(res["status"] === <digits>)\<close>\<close>
  | StatusTest string    \<comment> \<open>\<open>/^<pattern with \d for x>$/.test(res["status"])\<close>\<close>
  | FieldEq string string  \<comment> \<open>\<open>(stringify(res["<field>"]) === '<text>')\<close>\<close>

datatype clause = Single cond | AnyOf "cond list"

text \<open>\<open>option.toString()\<close>: a TypeError on \<open>null\<close> and \<open>undefined\<close>.\<close>

definition toString :: "jsv \<Rightarrow> error + string" where
  "toString v = (if v = JUndef \<or> v = JNull then Inl TypeError else to_string v)"

definition createCondition :: "stringify \<Rightarrow> string \<Rightarrow> jsv \<Rightarrow> error + cond" where
  "createCondition sfy retryCond option =
     (if retryCond = ''status'' then
        (case toString option of
           Inl e \<Rightarrow> Inl e
         | Inr opt \<Rightarrow>
             if opt \<noteq> [] \<and> list_all is_digit opt then Inr (StatusEq opt)
             else if opt \<noteq> [] \<and> list_all (\<lambda>c. is_digit c \<or> c = CHR ''x'') opt
               then Inr (StatusTest opt)
             else Inl (InvalidRetryCondition opt))
      else
        (case to_string (sfy option) of
           Inl e \<Rightarrow> Inl e
         | Inr text \<Rightarrow> Inr (FieldEq retryCond text)))"

text \<open>Mapping a function that may throw over a list stops at the first throw.\<close>

fun mapM :: "('a \<Rightarrow> error + 'b) \<Rightarrow> 'a list \<Rightarrow> error + 'b list" where
  "mapM f [] = Inr []"
| "mapM f (x # xs) =
     (case f x of
        Inl e \<Rightarrow> Inl e
      | Inr y \<Rightarrow> (case mapM f xs of Inl e \<Rightarrow> Inl e | Inr ys \<Rightarrow> Inr (y # ys)))"

text \<open>
  \<open>Object.keys(v)\<close> paired with \<open>v[key]\<close>: the entries of an object, the indices of an
  array or a string, nothing for a number or a boolean.
\<close>

fun own_entries :: "jsv \<Rightarrow> error + (string \<times> jsv) list" where
  "own_entries JUndef = Inl TypeError"
| "own_entries JNull = Inl TypeError"
| "own_entries (JBool b) = Inr []"
| "own_entries (JNum n) = Inr []"
| "own_entries (JStr s) = Inr (map (\<lambda>i. (show_nat i, JStr [s ! i])) [0..<length s])"
| "own_entries (JArr xs) = Inr (map (\<lambda>i. (show_nat i, xs ! i)) [0..<length xs])"
| "own_entries (JObj kvs) = Inr kvs"

definition isArray :: "jsv \<Rightarrow> bool" where
  "isArray v = (case v of JArr _ \<Rightarrow> True | _ \<Rightarrow> False)"

definition compileClause :: "stringify \<Rightarrow> string \<times> jsv \<Rightarrow> error + clause" where
  "compileClause sfy kv =
     (case snd kv of
        JArr options \<Rightarrow>
          (case mapM (createCondition sfy (fst kv)) options of
             Inl e \<Rightarrow> Inl e
           | Inr orCondition \<Rightarrow> Inr (AnyOf orCondition))
      | option \<Rightarrow>
          (case createCondition sfy (fst kv) option of
             Inl e \<Rightarrow> Inl e
           | Inr c \<Rightarrow> Inr (Single c)))"

text \<open>The array \<open>condition\<close> when the loop over the stanza's keys is done.\<close>

definition conditions :: "stringify \<Rightarrow> jsv \<Rightarrow> error + clause list" where
  "conditions sfy retryDefinition =
     (case own_entries retryDefinition of
        Inl e \<Rightarrow> Inl e
      | Inr kvs \<Rightarrow> mapM (compileClause sfy) kvs)"

subsection \<open>The generated source text\<close>

definition dquote :: string where "dquote = [CHR 0x22]"

definition squote :: string where "squote = [CHR 0x27]"

text \<open>\<open>opt.replace(/x/g, "\\d")\<close>: every \<open>x\<close> becomes a backslash and a \<open>d\<close>.\<close>

definition replace_x :: "string \<Rightarrow> string" where
  "replace_x opt = concat (map (\<lambda>c. if c = CHR ''x'' then [CHR 0x5C, CHR ''d''] else [c]) opt)"

fun cond_text :: "cond \<Rightarrow> string" where
  "cond_text (StatusEq opt) =
     ''(res['' @ dquote @ ''status'' @ dquote @ ''] === '' @ opt @ '')''"
| "cond_text (StatusTest opt) =
     ''/^'' @ replace_x opt @ ''$/.test(res['' @ dquote @ ''status'' @ dquote @ ''])''"
| "cond_text (FieldEq retryCond text) =
     ''(stringify(res['' @ dquote @ retryCond @ dquote @ '']) === ''
       @ squote @ text @ squote @ '')''"

fun clause_text :: "clause \<Rightarrow> string" where
  "clause_text (Single c) = cond_text c"
| "clause_text (AnyOf orCondition) = ''('' @ join '' || '' (map cond_text orCondition) @ '')''"

definition code_text :: "clause list \<Rightarrow> string" where
  "code_text condition = ''return ('' @ join '' && '' (map clause_text condition) @ '');''"

text \<open>The text \<open>code\<close> that a stanza leads to, when no condition throws.\<close>

definition generatedCode :: "stringify \<Rightarrow> jsv \<Rightarrow> error + string" where
  "generatedCode sfy retryDefinition =
     (case conditions sfy retryDefinition of
        Inl e \<Rightarrow> Inl e
      | Inr condition \<Rightarrow> Inr (code_text condition))"

subsection \<open>Reading the generated text\<close>

definition plain_sq :: "string \<Rightarrow> bool" where
  "plain_sq s = list_all (\<lambda>c. c \<notin> {CHR 0x27, CHR 0x5C, CHR 0x0A, CHR 0x0D}) s"

definition plain_dq :: "string \<Rightarrow> bool" where
  "plain_dq s = list_all (\<lambda>c. c \<notin> {CHR 0x22, CHR 0x5C, CHR 0x0A, CHR 0x0D}) s"

fun plain_cond :: "cond \<Rightarrow> bool" where
  "plain_cond (FieldEq retryCond text) = (plain_dq retryCond \<and> plain_sq text)"
| "plain_cond c = True"

fun plain_clause :: "clause \<Rightarrow> bool" where
  "plain_clause (Single c) = plain_cond c"
| "plain_clause (AnyOf orCondition) = list_all plain_cond orCondition"

text \<open>
  \<open>new Function\<close> parses \<open>return (c1 && ... && cn);\<close>: an empty conjunction \<open>()\<close> and
  an empty disjunction \<open>()\<close> are syntax errors.
\<close>

definition parses :: "clause list \<Rightarrow> bool" where
  "parses condition = (condition \<noteq> [] \<and> AnyOf [] \<notin> set condition)"

definition compileErrorCheckCondition :: "stringify \<Rightarrow> jsv \<Rightarrow> clause list outcome" where
  "compileErrorCheckCondition sfy retryDefinition =
     (case conditions sfy retryDefinition of
        Inl e \<Rightarrow> Throws e
      | Inr condition \<Rightarrow>
          if \<not> list_all plain_clause condition then Beyond
          else if parses condition then Built condition
          else Throws SyntaxError)"

subsection \<open>Running the generated classifier\<close>

text \<open>
  A run of decimal digits as a numeric literal of non-strict code (the body of
  \<open>new Function\<close>): a leading zero followed by octal digits only is an octal literal.
\<close>

definition read_octal :: "string \<Rightarrow> nat" where
  "read_octal s = foldl (\<lambda>acc c. 8 * acc + digit_val c) 0 s"

definition js_num_literal :: "string \<Rightarrow> int" where
  "js_num_literal s =
     (if 1 < length s \<and> hd s = CHR ''0'' \<and> list_all (\<lambda>c. c \<in> set ''01234567'') s
      then int (read_octal s) else int (read_nat s))"

text \<open>
  The pattern of a status test is a run of digits and \<open>x\<close>; with \<open>x\<close> replaced by
  \<open>\d\<close> and anchored at both ends it matches a string of the same length that agrees
  on the digits and has a digit wherever the pattern has \<open>x\<close>. \<open>test\<close> converts its
  argument to a string first.
\<close>

definition status_matches :: "string \<Rightarrow> string \<Rightarrow> bool" where
  "status_matches pat s = list_all2 (\<lambda>p c. if p = CHR ''x'' then is_digit c else p = c) pat s"

fun eval_cond :: "stringify \<Rightarrow> jsv \<Rightarrow> cond \<Rightarrow> error + bool" where
  "eval_cond sfy res (StatusEq opt) =
     (case get_prop res ''status'' of
        Inl e \<Rightarrow> Inl e
      | Inr v \<Rightarrow> Inr (v = JNum (js_num_literal opt)))"
| "eval_cond sfy res (StatusTest pat) =
     (case get_prop res ''status'' of
        Inl e \<Rightarrow> Inl e
      | Inr v \<Rightarrow>
          (case to_string v of
             Inl e \<Rightarrow> Inl e
           | Inr s \<Rightarrow> Inr (status_matches pat s)))"
| "eval_cond sfy res (FieldEq retryCond text) =
     (case get_prop res retryCond of Inl e \<Rightarrow> Inl e | Inr v \<Rightarrow> Inr (sfy v = JStr text))"

text \<open>\<open>c1 || ... || cn\<close>, left to right, stopping at the first true operand.\<close>

fun eval_or :: "stringify \<Rightarrow> jsv \<Rightarrow> cond list \<Rightarrow> error + bool" where
  "eval_or sfy res [] = Inr False"
| "eval_or sfy res (c # cs) =
     (case eval_cond sfy res c of
        Inl e \<Rightarrow> Inl e
      | Inr b \<Rightarrow> if b \<or> cs = [] then Inr b else eval_or sfy res cs)"

fun eval_clause :: "stringify \<Rightarrow> jsv \<Rightarrow> clause \<Rightarrow> error + bool" where
  "eval_clause sfy res (Single c) = eval_cond sfy res c"
| "eval_clause sfy res (AnyOf cs) = eval_or sfy res cs"

text \<open>\<open>c1 && ... && cn\<close>, left to right, stopping at the first false operand.\<close>

fun classify :: "stringify \<Rightarrow> clause list \<Rightarrow> jsv \<Rightarrow> error + bool" where
  "classify sfy [] res = Inr True"
| "classify sfy (c # cs) res =
     (case eval_clause sfy res c of
        Inl e \<Rightarrow> Inl e
      | Inr b \<Rightarrow> if \<not> b \<or> cs = [] then Inr b else classify sfy cs res)"

text \<open>
  The stanza read as the specification words it: every field must hold, and a field
  whose options are an array holds when one of its options does. An option holds on
  a result when its condition compiles and evaluates to true.
\<close>

definition option_holds :: "stringify \<Rightarrow> jsv \<Rightarrow> string \<Rightarrow> jsv \<Rightarrow> bool" where
  "option_holds sfy res retryCond option =
     (case createCondition sfy retryCond option of
        Inl e \<Rightarrow> False
      | Inr c \<Rightarrow> eval_cond sfy res c = Inr True)"

definition field_holds :: "stringify \<Rightarrow> jsv \<Rightarrow> string \<times> jsv \<Rightarrow> bool" where
  "field_holds sfy res kv =
     (case snd kv of
        JArr options \<Rightarrow> list_ex (option_holds sfy res (fst kv)) options
      | option \<Rightarrow> option_holds sfy res (fst kv) option)"

definition stanza_holds :: "stringify \<Rightarrow> (string \<times> jsv) list \<Rightarrow> jsv \<Rightarrow> bool" where
  "stanza_holds sfy stanza res = list_all (field_holds sfy res) stanza"

section \<open>Match compiler\<close>

text \<open>
  \<open>_compileMatch\<close> turns a match tree into the source text of a predicate and fills
  \<open>result\<close>, from which \<open>_getMatchObjCode\<close> writes the source text of the binder. The
  model keeps the structure of these texts. As for retry conditions, the model
  reads strings and keys that are plain where they are spliced between quotes, and
  keys that are identifiers or indices where \<open>_getMatchObjCode\<close> writes them bare
  into an object literal; a tree with any other string or key is beyond the model.

  The regular-expression engine belongs to the JavaScript runtime. Matching is a
  parameter: \<open>rx re s\<close> is \<open>re.exec(s)\<close> for the regular-expression literal \<open>re\<close>,
  \<open>None\<close> for \<open>null\<close>, otherwise the matched text followed by one entry for each
  capture group (\<open>None\<close> for a group that took no part). Checking the syntax of a
  pattern and counting its capture groups, which \<open>_compileNamedRegex\<close> asks of
  \<open>new RegExp\<close>, is modelled by a scanner.
\<close>

type_synonym engine = "string \<Rightarrow> string \<Rightarrow> string option list option"

subsection \<open>Recognising and normalising regular expressions\<close>

definition line_break :: "char \<Rightarrow> bool" where
  "line_break c = (c = CHR 0x0A \<or> c = CHR 0x0D)"

text \<open>
  \<open>/^\/.+\/[gimuy]{0,5}$/.test(s)\<close>: the flags are what follows the last slash, and
  between the first and the last slash there is at least one character, none of them
  a line break.
\<close>

definition regex_flags :: "string \<Rightarrow> string" where
  "regex_flags s = rev (takeWhile (\<lambda>c. c \<noteq> CHR ''/'') (rev s))"

definition regex_body :: "string \<Rightarrow> string" where
  "regex_body s = butlast (tl (take (length s - length (regex_flags s)) s))"

definition is_regex :: "string \<Rightarrow> bool" where
  "is_regex s =
     (3 + length (regex_flags s) \<le> length s \<and> hd s = CHR ''/''
      \<and> \<not> list_ex line_break (regex_body s)
      \<and> length (regex_flags s) \<le> 5 \<and> list_all (\<lambda>c. c \<in> set ''gimuy'') (regex_flags s))"

definition is_word :: "char \<Rightarrow> bool" where
  "is_word c =
     (c \<in> set ''abcdefghijklmnopqrstuvwxyzABCDEFGHIJKLMNOPQRSTUVWXYZ0123456789_'')"

text \<open>
  \<open>obj.replace(/\(\?<(\w+)>/g, ...)\<close>: every \<open>(?<name>\<close> in the text, wherever it
  stands, becomes \<open>(\<close> and its name is collected.
\<close>

definition group_name :: "string \<Rightarrow> string option" where
  "group_name s =
     (let name = takeWhile is_word (drop 3 s) in
      if take 3 s = ''(?<'' \<and> name \<noteq> [] \<and> take 1 (drop (3 + length name) s) = ''>''
      then Some name else None)"

function replace_named :: "string \<Rightarrow> string \<times> string list" where
  "replace_named [] = ([], [])"
| "replace_named (c # cs) =
     (case group_name (c # cs) of
        Some name \<Rightarrow>
          (let r = replace_named (drop (3 + length name) cs)
           in (CHR ''('' # fst r, name # snd r))
      | None \<Rightarrow> (let r = replace_named cs in (c # fst r, snd r)))"
  by pat_completeness auto
termination
  by (relation "measure length") auto

text \<open>
  What \<open>new RegExp(pattern)\<close>, without flags, makes of a pattern: the number of its
  capture groups, or a SyntaxError (\<open>BadSyntax\<close>). The scanner reads the pattern
  from left to right and answers \<open>Unsure\<close> at the first construct it does not
  know, or that engines of different age treat differently: a brace outside a
  character class, a group opened by \<open>(?\<close> other than \<open>(?:\<close>, \<open>(?=\<close> and
  \<open>(?!\<close>, a range in a character class with an escape sequence at one end.

  Outside a character class a backslash takes the next character with it;
  \<open>(?:\<close>, \<open>(?=\<close> and \<open>(?!\<close> open a group that captures nothing, a \<open>(\<close>
  without \<open>?\<close> opens a capture group; parentheses must balance; \<open>*\<close>, \<open>+\<close> and \<open>?\<close>
  need something to repeat before them (\<open>atom\<close>: a character, an escape sequence other
  than the assertions \<open>\b\<close> and \<open>\B\<close>, a class, a group) and may be followed by one
  \<open>?\<close>. Inside a class, which must be closed, nothing opens a group; \<open>x-y\<close> is a
  range, whose ends must be in order, unless the \<open>-\<close> is the first or the last
  character of the class.
\<close>

datatype rx_syntax = Groups nat | BadSyntax | Unsure

text \<open>
  The place of the scanner with respect to a character class: outside; inside, with
  no character before it that could start a range; after a plain character; after an
  escape sequence.
\<close>

datatype in_class = Outside | Fresh | After char | AfterEscape

definition one_more :: "rx_syntax \<Rightarrow> rx_syntax" where
  "one_more r = (case r of Groups n \<Rightarrow> Groups (Suc n) | _ \<Rightarrow> r)"

function scanGroups :: "in_class \<Rightarrow> nat \<Rightarrow> bool \<Rightarrow> string \<Rightarrow> rx_syntax" where
  "scanGroups cls depth atom [] = (if cls \<noteq> Outside \<or> depth \<noteq> 0 then BadSyntax else Groups 0)"
| "scanGroups cls depth atom (c # cs) =
     (if cls \<noteq> Outside then
        (if c = CHR 0x5C then
           (case cs of [] \<Rightarrow> BadSyntax | e # rest \<Rightarrow> scanGroups AfterEscape depth atom rest)
         else if c = CHR '']'' then scanGroups Outside depth True cs
         else if c = CHR ''-'' \<and> cls \<noteq> Fresh \<and> take 1 cs \<noteq> '']'' then
           (case cs of
              [] \<Rightarrow> BadSyntax
            | q # rest \<Rightarrow>
                (case cls of
                   After p \<Rightarrow>
                     if q = CHR 0x5C then Unsure
                     else if (of_char p :: nat) \<le> of_char q then scanGroups Fresh depth atom rest
                     else BadSyntax
                 | _ \<Rightarrow> Unsure))
         else scanGroups (After c) depth atom cs)
      else if c = CHR 0x5C then
        (case cs of
           [] \<Rightarrow> BadSyntax
         | e # rest \<Rightarrow> scanGroups Outside depth (e \<noteq> CHR ''b'' \<and> e \<noteq> CHR ''B'') rest)
      else if c = CHR ''['' then
        scanGroups Fresh depth atom (if take 1 cs = ''^'' then drop 1 cs else cs)
      else if c = CHR ''('' then
        (if take 1 cs = ''?'' then
           (if take 1 (drop 1 cs) \<in> {'':'', ''='', ''!''}
            then scanGroups Outside (Suc depth) False (drop 2 cs)
            else Unsure)
         else one_more (scanGroups Outside (Suc depth) False cs))
      else if c = CHR '')'' then
        (if depth = 0 then BadSyntax else scanGroups Outside (depth - 1) True cs)
      else if c = CHR ''|'' then scanGroups Outside depth False cs
      else if c \<in> set ''*+?'' then
        (if atom then scanGroups Outside depth False (if take 1 cs = ''?'' then drop 1 cs else cs)
         else BadSyntax)
      else if c = CHR ''{'' then Unsure
      else if c \<in> set ''^$'' then scanGroups Outside depth False cs
      else scanGroups Outside depth True cs)"
  by pat_completeness auto
termination
  by (relation "measure (\<lambda>(cls, depth, atom, s). length s)") auto

definition numGroups :: "string \<Rightarrow> rx_syntax" where
  "numGroups pattern = scanGroups Outside 0 False pattern"

text \<open>
  The text \<open>/body/flags\<close> as a regular-expression literal in the generated code. The
  literal ends at the first slash that is neither escaped nor inside a character
  class, and a body that starts with \<open>*\<close> opens a comment: in both cases the code is
  not the literal followed by \<open>.test(...)\<close>, and beyond the model, as is the flag
  \<open>u\<close>, which changes the syntax of the body. A repeated flag is a syntax error;
  otherwise the literal parses exactly when its body is a pattern.
\<close>

fun delimited :: "bool \<Rightarrow> string \<Rightarrow> bool" where
  "delimited inClass [] = (\<not> inClass)"
| "delimited inClass (c # cs) =
     (if c = CHR 0x5C then (case cs of [] \<Rightarrow> False | e # rest \<Rightarrow> delimited inClass rest)
      else if inClass then delimited (c \<noteq> CHR '']'') cs
      else if c = CHR ''['' then delimited True cs
      else c \<noteq> CHR ''/'' \<and> delimited False cs)"

definition regex_literal :: "string \<Rightarrow> rx_syntax" where
  "regex_literal re =
     (if take 1 (regex_body re) = ''*'' \<or> \<not> delimited False (regex_body re) then Unsure
      else if \<not> distinct (regex_flags re) then BadSyntax
      else if CHR ''u'' \<in> set (regex_flags re) then Unsure
      else scanGroups Outside 0 False (regex_body re))"

subsection \<open>The generated predicate and binder\<close>

text \<open>
  A path is the chain of keys after the variable (\<open>message\<close>, or \<open>item\<close> inside an
  array test): \<open>message['meta']['uri']\<close> is \<open>[''meta'', ''uri'']\<close>.

  The predicate is a chain of \<open>&&\<close>. Its operands are comparisons with a literal,
  regular-expression tests, and array tests
  \<open>Array.isArray(p) && p.find((item) => t1) && ... && p.find((item) => tn)\<close>, which
  \<open>_compileArrayMatch\<close> returns as one piece. \<open>Broken\<close> is a text that certainly
  does not parse.
\<close>

type_synonym path = "string list"

datatype atom =
    AEq path jsv
  | ATest string path
  | AArray path "atom list list"

datatype test = Broken | Conj "atom list"

text \<open>
  The values of \<open>result\<close>: a literal, \<open>re.exec(p)\<close>, the function that names the
  captures of \<open>re.exec(p)\<close>, or a nested object.
\<close>

datatype bexpr =
    BVal jsv
  | BExec string path
  | BNamed string path "string list"
  | BObj "(string \<times> bexpr) list"

type_synonym result = "(string \<times> bexpr) list"

definition atoms_of :: "test \<Rightarrow> atom list" where
  "atoms_of t = (case t of Conj as \<Rightarrow> as | Broken \<Rightarrow> [])"

text \<open>\<open>parts.join(' && ')\<close>: an empty part among several leaves a dangling \<open>&&\<close>.\<close>

definition join_tests :: "test list \<Rightarrow> test" where
  "join_tests ts =
     (case ts of
        [] \<Rightarrow> Conj []
      | [t] \<Rightarrow> t
      | _ \<Rightarrow>
          if list_ex (\<lambda>t. t = Broken \<or> t = Conj []) ts then Broken
          else Conj (concat (map atoms_of ts)))"

text \<open>
  \<open>_compileArrayMatch\<close>: an item whose test is empty or broken gives an arrow function
  without a body.
\<close>

definition compileArrayMatch :: "test list \<Rightarrow> path \<Rightarrow> test" where
  "compileArrayMatch itemTests name =
     (if list_ex (\<lambda>t. t = Broken \<or> t = Conj []) itemTests then Broken
      else Conj [AArray name (map atoms_of itemTests)])"

definition plain_path :: "path \<Rightarrow> bool" where
  "plain_path p = list_all plain_sq p"

text \<open>
  \<open>_compileNamedRegex\<close>; \<open>key\<close> is \<open>fieldName\<close> as a property name. \<open>new RegExp\<close> is
  given the whole text, slashes and flags included, followed by \<open>|\<close>.
\<close>

definition compileNamedRegex ::
  "string \<Rightarrow> result \<Rightarrow> path \<Rightarrow> string \<Rightarrow> (test \<times> result) outcome" where
  "compileNamedRegex obj result name key =
     (let normalRegex = fst (replace_named obj); captureNames = snd (replace_named obj);
          binding = (if captureNames = [] then BExec normalRegex name
                     else BNamed normalRegex name captureNames) in
      case numGroups (normalRegex @ ''|'') of
        BadSyntax \<Rightarrow> Throws SyntaxError
      | Unsure \<Rightarrow> Beyond
      | Groups n \<Rightarrow>
          if captureNames \<noteq> [] \<and> length captureNames \<noteq> n then Throws (InvalidMatchRegex obj)
          else if \<not> plain_path name then Beyond
          else
            (case regex_literal normalRegex of
               Unsure \<Rightarrow> Beyond
             | BadSyntax \<Rightarrow> Built (Broken, assign result key binding)
             | Groups m \<Rightarrow> Built (Conj [ATest normalRegex name], assign result key binding)))"

text \<open>
  \<open>_compileMatch\<close>. \<open>fieldName\<close> is \<open>undefined\<close> at the top, a key below an object and an
  index below an array; as a property name it is converted to a string. Reading
  \<open>obj.constructor\<close> throws on \<open>null\<close>. An object that is not plain takes the branch
  of the values that are no strings: it is converted to a string and written into
  the code as \<open>[object Object]\<close>, which does not parse. The keys of a plain object are compiled in
  order into \<open>subObj\<close>, which is \<open>result\<close> itself when \<open>fieldName\<close> is falsy; the items
  of an array are compiled into a fresh object that is thrown away.
\<close>

fun compileMatch :: "jsv \<Rightarrow> result \<Rightarrow> path \<Rightarrow> jsv \<Rightarrow> (test \<times> result) outcome"
  and compileKeys :: "(string \<times> jsv) list \<Rightarrow> result \<Rightarrow> path \<Rightarrow> (test list \<times> result) outcome"
  and compileItems :: "jsv list \<Rightarrow> nat \<Rightarrow> test list outcome" where
  "compileMatch JUndef result name fieldName = Throws TypeError"
| "compileMatch JNull result name fieldName = Throws TypeError"
| "compileMatch (JArr items) result name fieldName =
     (case compileItems items 0 of
        Throws e \<Rightarrow> Throws e
      | Beyond \<Rightarrow> Beyond
      | Built itemTests \<Rightarrow>
          if plain_path name then Built (compileArrayMatch itemTests name, result) else Beyond)"
| "compileMatch (JBool b) result name fieldName =
     (if plain_path name
      then Built (Conj [AEq name (JBool b)], assign result (to_str fieldName) (BVal (JBool b)))
      else Beyond)"
| "compileMatch (JNum n) result name fieldName =
     (if plain_path name
      then Built (Conj [AEq name (JNum n)], assign result (to_str fieldName) (BVal (JNum n)))
      else Beyond)"
| "compileMatch (JStr s) result name fieldName =
     (if s = ''undefined'' then
        (if plain_path name then Built (Conj [AEq name JUndef], result) else Beyond)
      else if \<not> is_regex s then
        (if plain_path name \<and> plain_sq s
         then Built (Conj [AEq name (JStr s)], assign result (to_str fieldName) (BVal (JStr s)))
         else Beyond)
      else compileNamedRegex s result name (to_str fieldName))"
| "compileMatch (JObj kvs) result name fieldName =
     (if \<not> plainObject kvs then
        (if \<not> stringable (JObj kvs) then Throws TypeError
         else if plain_path name
           then Built (Broken, assign result (to_str fieldName) (BVal (JObj kvs)))
         else Beyond)
      else
        case compileKeys kvs (if truthy fieldName then [] else result) name of
          Throws e \<Rightarrow> Throws e
        | Beyond \<Rightarrow> Beyond
        | Built (tests, subObj) \<Rightarrow>
            Built (join_tests tests,
                   if truthy fieldName then assign result (to_str fieldName) (BObj subObj)
                   else subObj))"
| "compileKeys [] subObj name = Built ([], subObj)"
| "compileKeys (kv # kvs) subObj name =
     (case compileMatch (snd kv) subObj (name @ [fst kv]) (JStr (fst kv)) of
        Throws e \<Rightarrow> Throws e
      | Beyond \<Rightarrow> Beyond
      | Built (t, subObj') \<Rightarrow>
          (case compileKeys kvs subObj' name of
             Throws e \<Rightarrow> Throws e
           | Beyond \<Rightarrow> Beyond
           | Built (ts, subObj'') \<Rightarrow> Built (t # ts, subObj'')))"
| "compileItems [] index = Built []"
| "compileItems (item # items) index =
     (case compileMatch item [] [] (JNum (int index)) of
        Throws e \<Rightarrow> Throws e
      | Beyond \<Rightarrow> Beyond
      | Built (t, r) \<Rightarrow>
          (case compileItems items (Suc index) of
             Throws e \<Rightarrow> Throws e
           | Beyond \<Rightarrow> Beyond
           | Built ts \<Rightarrow> Built (t # ts)))"

subsection \<open>Running the predicate\<close>

fun path_get :: "jsv \<Rightarrow> path \<Rightarrow> error + jsv" where
  "path_get v [] = Inr v"
| "path_get v (k # ks) = (case get_prop v k of Inl e \<Rightarrow> Inl e | Inr x \<Rightarrow> path_get x ks)"

text \<open>
  \<open>xs.find(cb)\<close>: the first element on which the callback is truthy, \<open>undefined\<close> when
  there is none.
\<close>

fun js_find :: "(jsv \<Rightarrow> error + jsv) \<Rightarrow> jsv list \<Rightarrow> error + jsv" where
  "js_find cb [] = Inr JUndef"
| "js_find cb (x # xs) =
     (case cb x of
        Inl e \<Rightarrow> Inl e
      | Inr r \<Rightarrow> if truthy r then Inr x else js_find cb xs)"

text \<open>\<open>re.test(x)\<close>: the argument is converted to a string, which may throw.\<close>

definition regex_test :: "engine \<Rightarrow> string \<Rightarrow> jsv \<Rightarrow> error + jsv" where
  "regex_test rx re x =
     (case to_string x of Inl e \<Rightarrow> Inl e | Inr s \<Rightarrow> Inr (JBool (rx re s \<noteq> None)))"

text \<open>
  \<open>a1 && ... && an\<close> yields the first falsy operand, or the last operand. The empty
  chain is the empty predicate text, \<open>return ;\<close>, which yields \<open>undefined\<close>. An array
  test on a value that is not an array is \<open>false\<close>; on an array it goes on with its
  \<open>find\<close> calls, as long as the one before found something truthy.
\<close>

fun eval_atom :: "engine \<Rightarrow> jsv \<Rightarrow> atom \<Rightarrow> error + jsv"
  and eval_finds :: "engine \<Rightarrow> jsv list \<Rightarrow> jsv \<Rightarrow> atom list list \<Rightarrow> error + jsv"
  and eval_conj :: "engine \<Rightarrow> jsv \<Rightarrow> atom list \<Rightarrow> error + jsv" where
  "eval_atom rx v (AEq p lit) =
     (case path_get v p of Inl e \<Rightarrow> Inl e | Inr x \<Rightarrow> Inr (JBool (x = lit)))"
| "eval_atom rx v (ATest re p) =
     (case path_get v p of Inl e \<Rightarrow> Inl e | Inr x \<Rightarrow> regex_test rx re x)"
| "eval_atom rx v (AArray p itemTests) =
     (case path_get v p of
        Inl e \<Rightarrow> Inl e
      | Inr (JArr xs) \<Rightarrow> eval_finds rx xs (JBool True) itemTests
      | Inr x \<Rightarrow> Inr (JBool False))"
| "eval_finds rx xs acc [] = Inr acc"
| "eval_finds rx xs acc (t # ts) =
     (if truthy acc then
        (case js_find (\<lambda>item. eval_conj rx item t) xs of
           Inl e \<Rightarrow> Inl e
         | Inr found \<Rightarrow> eval_finds rx xs found ts)
      else Inr acc)"
| "eval_conj rx v [] = Inr JUndef"
| "eval_conj rx v (a # as) =
     (case eval_atom rx v a of
        Inl e \<Rightarrow> Inl e
      | Inr x \<Rightarrow> if truthy x \<and> as \<noteq> [] then eval_conj rx v as else Inr x)"

subsection \<open>Running the binder\<close>

definition group_value :: "string option \<Rightarrow> jsv" where
  "group_value g = (case g of None \<Rightarrow> JUndef | Some s \<Rightarrow> JStr s)"

text \<open>
  \<open>re.exec(x)\<close>: the argument is converted to a string, which may throw; the result
  is \<open>null\<close> or the array of the match and its groups.
\<close>

definition regex_exec :: "engine \<Rightarrow> string \<Rightarrow> jsv \<Rightarrow> error + jsv list option" where
  "regex_exec rx re x =
     (case to_string x of
        Inl e \<Rightarrow> Inl e
      | Inr s \<Rightarrow> Inr (map_option (map group_value) (rx re s)))"

text \<open>
  \<open>res[captureName] = execRes[index + 1]\<close> for every capture name in turn; an index
  beyond the array reads \<open>undefined\<close>, and reading an index of \<open>null\<close> throws.
\<close>

fun name_captures :: "string list \<Rightarrow> nat \<Rightarrow> jsv list \<Rightarrow> (string \<times> jsv) list \<Rightarrow> (string \<times> jsv) list" where
  "name_captures [] index execRes res = res"
| "name_captures (captureName # names) index execRes res =
     name_captures names (Suc index) execRes
       (assign res captureName (nth_or_undef execRes (Suc index)))"

fun eval_bexpr :: "engine \<Rightarrow> jsv \<Rightarrow> bexpr \<Rightarrow> error + jsv"
  and eval_fields :: "engine \<Rightarrow> jsv \<Rightarrow> (string \<times> bexpr) list \<Rightarrow> error + (string \<times> jsv) list" where
  "eval_bexpr rx message (BVal v) = Inr v"
| "eval_bexpr rx message (BExec re p) =
     (case path_get message p of
        Inl e \<Rightarrow> Inl e
      | Inr x \<Rightarrow>
          (case regex_exec rx re x of
             Inl e \<Rightarrow> Inl e
           | Inr None \<Rightarrow> Inr JNull
           | Inr (Some execRes) \<Rightarrow> Inr (JArr execRes)))"
| "eval_bexpr rx message (BNamed re p captureNames) =
     (case path_get message p of
        Inl e \<Rightarrow> Inl e
      | Inr x \<Rightarrow>
          (case regex_exec rx re x of
             Inl e \<Rightarrow> Inl e
           | Inr None \<Rightarrow> Inl TypeError
           | Inr (Some execRes) \<Rightarrow> Inr (JObj (name_captures captureNames 0 execRes []))))"
| "eval_bexpr rx message (BObj kvs) =
     (case eval_fields rx message kvs of Inl e \<Rightarrow> Inl e | Inr fs \<Rightarrow> Inr (JObj fs))"
| "eval_fields rx message [] = Inr []"
| "eval_fields rx message (kv # kvs) =
     (case eval_bexpr rx message (snd kv) of
        Inl e \<Rightarrow> Inl e
      | Inr v \<Rightarrow>
          (case eval_fields rx message kvs of
             Inl e \<Rightarrow> Inl e
           | Inr fs \<Rightarrow> Inr ((fst kv, v) # fs)))"

subsection \<open>Building the two functions\<close>

text \<open>
  \<open>_getMatchObjCode\<close> writes the keys of \<open>result\<close> bare into an object literal. The
  model reads a key there when it is an identifier or an array index; \<open>__proto__\<close>,
  which in an object literal sets the prototype, is not read. String literals must
  be plain.
\<close>

definition ident_key :: "string \<Rightarrow> bool" where
  "ident_key k =
     (k \<noteq> ''__proto__''
      \<and> (parse_idx k \<noteq> None
         \<or> (k \<noteq> [] \<and> \<not> is_digit (hd k) \<and> list_all (\<lambda>c. is_word c \<or> c = CHR ''$'') k)))"

fun readable :: "bexpr \<Rightarrow> bool" where
  "readable (BVal v) =
     (case v of JStr s \<Rightarrow> plain_sq s | JObj kvs \<Rightarrow> False | JArr xs \<Rightarrow> False | _ \<Rightarrow> True)"
| "readable (BExec re p) = True"
| "readable (BNamed re p captureNames) = True"
| "readable (BObj kvs) = list_all (\<lambda>kv. ident_key (fst kv) \<and> readable (snd kv)) kvs"

type_synonym matcher = "atom list \<times> result"

text \<open>
  \<open>_processMatch\<close>: nothing for a falsy match; otherwise both texts go through
  \<open>new Function\<close>, the predicate first, and a syntax error in either is reported as
  an invalid match object. Errors of \<open>_compileMatch\<close> itself pass through unchanged.
  When the predicate parses, every regular expression and every path of the binder
  has been read as part of the predicate.
\<close>

definition processMatch :: "jsv \<Rightarrow> matcher option outcome" where
  "processMatch match =
     (if \<not> truthy match then Built None
      else case compileMatch match [] [] JUndef of
             Throws e \<Rightarrow> Throws e
           | Beyond \<Rightarrow> Beyond
           | Built (Broken, obj) \<Rightarrow> Throws InvalidMatchObject
           | Built (Conj as, obj) \<Rightarrow>
               if readable (BObj obj) then Built (Some (as, obj)) else Beyond)"

section \<open>Rule\<close>

text \<open>
  A compiled predicate of an option: the constant function standing in for a missing
  match, or generated code.
\<close>

datatype pred = Always bool | Code "atom list"

fun eval_pred :: "engine \<Rightarrow> pred \<Rightarrow> jsv \<Rightarrow> error + jsv" where
  "eval_pred rx (Always b) message = Inr (JBool b)"
| "eval_pred rx (Code as) message = eval_conj rx message as"

text \<open>
  A request template is built by the HyperSwitch package from the normalised request
  object; the model keeps that object.
\<close>

datatype template = Template jsv

record rule_option =
  exec :: "template list option"
  match :: pred
  expand :: "result option"
  match_not :: pred

record Rule =
  name :: string
  spec :: jsv
  topic :: jsv
  shouldRetry :: "clause list"
  shouldIgnoreError :: "clause list"
  options :: "rule_option list"
  noop :: bool

definition DEFAULT_RETRY_DELAY :: int where "DEFAULT_RETRY_DELAY = 60000"
definition DEFAULT_RETRY_FACTOR :: int where "DEFAULT_RETRY_FACTOR = 6"
definition DEFAULT_RETRY_LIMIT :: int where "DEFAULT_RETRY_LIMIT = 2"

text \<open>
  The body of the loop of \<open>_processExec\<close>: a request must be a plain object with a
  truthy \<open>uri\<close>; reading \<open>req.constructor\<close> throws on \<open>null\<close> and \<open>undefined\<close>. The
  request is normalised in place: the result is the request afterwards.
\<close>

definition processRequest :: "string \<Rightarrow> jsv \<Rightarrow> nat \<Rightarrow> jsv \<Rightarrow> error + jsv" where
  "processRequest ruleName ruleSpec idx req =
     (case req of
        JUndef \<Rightarrow> Inl TypeError
      | JNull \<Rightarrow> Inl TypeError
      | JObj kvs \<Rightarrow>
          if \<not> plainObject kvs \<or> \<not> truthy (field req ''uri'') then Inl (InvalidExec ruleName idx)
          else
            let r1 = set_field req ''method'' (js_or (field req ''method'') (JStr ''get''));
                r2 = set_field r1 ''headers'' (js_or (field r1 ''headers'') (JObj []));
                r3 = set_field r2 ''followRedirect'' (JBool False);
                r4 = set_field r3 ''retries'' (JNum 0)
            in Inr (if \<not> truthy (field ruleSpec ''decode_results'')
                    then set_field r4 ''encoding'' JNull else r4)
      | _ \<Rightarrow> Inl (InvalidExec ruleName idx))"

fun processRequests :: "string \<Rightarrow> jsv \<Rightarrow> nat \<Rightarrow> jsv list \<Rightarrow> error + jsv list" where
  "processRequests ruleName ruleSpec idx [] = Inr []"
| "processRequests ruleName ruleSpec idx (req # reqs) =
     (case processRequest ruleName ruleSpec idx req of
        Inl e \<Rightarrow> Inl e
      | Inr r \<Rightarrow>
          (case processRequests ruleName ruleSpec (Suc idx) reqs of
             Inl e \<Rightarrow> Inl e
           | Inr rs \<Rightarrow> Inr (r # rs)))"

text \<open>
  \<open>_processExec\<close>: a falsy \<open>exec\<close> marks the rule as a no-op and yields no templates
  (\<open>None\<close>); a single request is wrapped in an array. The second component is the
  value of \<open>exec\<close> after the call, with its requests normalised.
\<close>

definition processExec :: "string \<Rightarrow> jsv \<Rightarrow> jsv \<Rightarrow> error + template list option \<times> jsv" where
  "processExec ruleName ruleSpec ex =
     (if \<not> truthy ex then Inr (None, ex)
      else case ex of
             JArr reqs \<Rightarrow>
               (case processRequests ruleName ruleSpec 0 reqs of
                  Inl e \<Rightarrow> Inl e
                | Inr rs \<Rightarrow> Inr (Some (map Template rs), JArr rs))
           | _ \<Rightarrow>
               (case processRequest ruleName ruleSpec 0 ex of
                  Inl e \<Rightarrow> Inl e
                | Inr r \<Rightarrow> Inr (Some [Template r], r)))"

text \<open>
  The callback of \<open>.map\<close> in the constructor: \<open>match\<close> is compiled first, then
  \<open>exec\<close>, then \<open>match_not\<close>. The second component is the option of the
  specification after the call. (An option that is a string has the method \<open>match\<close>
  of strings for its \<open>match\<close>: a function, whose text does not parse as a
  comparison.)
\<close>

definition processOption :: "string \<Rightarrow> jsv \<Rightarrow> jsv \<Rightarrow> (rule_option \<times> jsv) outcome" where
  "processOption ruleName ruleSpec option =
     (case get_prop option ''match'' of
        Inl e \<Rightarrow> Throws e
      | Inr m \<Rightarrow>
     (case (case option of JStr s \<Rightarrow> Throws InvalidMatchObject | _ \<Rightarrow> processMatch m) of
        Throws e \<Rightarrow> Throws e
      | Beyond \<Rightarrow> Beyond
      | Built matcher \<Rightarrow>
     (case processExec ruleName ruleSpec (field option ''exec'') of
        Inl e \<Rightarrow> Throws e
      | Inr (templates, ex) \<Rightarrow>
     (case processMatch (field option ''match_not'') of
        Throws e \<Rightarrow> Throws e
      | Beyond \<Rightarrow> Beyond
      | Built not_matcher \<Rightarrow>
          Built (\<lparr> exec = templates,
                   match = (case matcher of None \<Rightarrow> Always True | Some m \<Rightarrow> Code (fst m)),
                   expand = map_option snd matcher,
                   match_not = (case not_matcher of None \<Rightarrow> Always False | Some m \<Rightarrow> Code (fst m)) \<rparr>,
                 if truthy ex then set_field option ''exec'' ex else option)))))"

fun processOptions :: "string \<Rightarrow> jsv \<Rightarrow> jsv list \<Rightarrow> (rule_option list \<times> jsv list) outcome" where
  "processOptions ruleName ruleSpec [] = Built ([], [])"
| "processOptions ruleName ruleSpec (option # rest) =
     (case processOption ruleName ruleSpec option of
        Throws e \<Rightarrow> Throws e
      | Beyond \<Rightarrow> Beyond
      | Built (opt, option') \<Rightarrow>
          (case processOptions ruleName ruleSpec rest of
             Throws e \<Rightarrow> Throws e
           | Beyond \<Rightarrow> Beyond
           | Built (opts, rest') \<Rightarrow> Built (opt # opts, option' # rest')))"

text \<open>
  The constructor. A specification with a truthy \<open>topic\<close> is an object. The five
  retry settings are overwritten in place by \<open>x || default\<close>. \<open>cases.map\<close> exists only
  on an array; without \<open>cases\<close> the specification itself is the one option. The
  requests under \<open>exec\<close> are normalised in place, so the specification the rule keeps
  holds them normalised.
\<close>

definition with_default :: "jsv \<Rightarrow> string \<Rightarrow> jsv \<Rightarrow> jsv" where
  "with_default s k d = set_field s k (js_or (field s k) d)"

definition apply_defaults :: "jsv \<Rightarrow> jsv" where
  "apply_defaults s0 =
     (let s1 = with_default s0 ''retry_on'' (JObj [(''status'', JArr [JStr ''50x''])]);
          s2 = with_default s1 ''ignore'' (JObj [(''status'', JArr [JNum 412])]);
          s3 = with_default s2 ''retry_delay'' (JNum DEFAULT_RETRY_DELAY);
          s4 = with_default s3 ''retry_limit'' (JNum DEFAULT_RETRY_LIMIT)
      in with_default s4 ''retry_factor'' (JNum DEFAULT_RETRY_FACTOR))"

definition newRule :: "stringify \<Rightarrow> string \<Rightarrow> jsv \<Rightarrow> Rule outcome" where
  "newRule sfy ruleName spec0 =
     (let s0 = js_or spec0 (JObj []) in
      if \<not> truthy (field s0 ''topic'') then Throws (NoTopic ruleName)
      else
        let s = apply_defaults s0 in
        case compileErrorCheckCondition sfy (field s ''retry_on'') of
          Throws e \<Rightarrow> Throws e
        | Beyond \<Rightarrow> Beyond
        | Built retry \<Rightarrow>
        (case compileErrorCheckCondition sfy (field s ''ignore'') of
          Throws e \<Rightarrow> Throws e
        | Beyond \<Rightarrow> Beyond
        | Built ignore \<Rightarrow>
        (if truthy (field s ''cases'') then
           (case field s ''cases'' of
              JArr cases \<Rightarrow>
                (case processOptions ruleName s cases of
                   Throws e \<Rightarrow> Throws e
                 | Beyond \<Rightarrow> Beyond
                 | Built (opts, cases') \<Rightarrow>
                     Built \<lparr> name = ruleName, spec = set_field s ''cases'' (JArr cases'),
                             topic = field s0 ''topic'',
                             shouldRetry = retry, shouldIgnoreError = ignore, options = opts,
                             noop = list_ex (\<lambda>opt. exec opt = None) opts \<rparr>)
            | _ \<Rightarrow> Throws TypeError)
         else
           (case processOption ruleName s s of
              Throws e \<Rightarrow> Throws e
            | Beyond \<Rightarrow> Beyond
            | Built (opt, s') \<Rightarrow>
                Built \<lparr> name = ruleName, spec = s', topic = field s0 ''topic'',
                        shouldRetry = retry, shouldIgnoreError = ignore, options = [opt],
                        noop = (exec opt = None) \<rparr>))))"

text \<open>
  \<open>Rule.test\<close>: \<open>findIndex\<close> with the callback
  \<open>option.match(message) && !option.match_not(message)\<close>.
\<close>

definition option_test :: "engine \<Rightarrow> jsv \<Rightarrow> rule_option \<Rightarrow> error + bool" where
  "option_test rx message opt =
     (case eval_pred rx (match opt) message of
        Inl e \<Rightarrow> Inl e
      | Inr m \<Rightarrow>
          if \<not> truthy m then Inr False
          else (case eval_pred rx (match_not opt) message of
                  Inl e \<Rightarrow> Inl e
                | Inr n \<Rightarrow> Inr (\<not> truthy n)))"

fun findIndex :: "('a \<Rightarrow> error + bool) \<Rightarrow> 'a list \<Rightarrow> nat \<Rightarrow> error + int" where
  "findIndex cb [] i = Inr (- 1)"
| "findIndex cb (x # xs) i =
     (case cb x of
        Inl e \<Rightarrow> Inl e
      | Inr b \<Rightarrow> if b then Inr (int i) else findIndex cb xs (Suc i))"

definition rule_test :: "engine \<Rightarrow> Rule \<Rightarrow> jsv \<Rightarrow> error + int" where
  "rule_test rx r message = findIndex (option_test rx message) (options r) 0"

text \<open>
  \<open>Rule.getExec\<close> and \<open>Rule.expand\<close>; an index outside the options reads a property
  of \<open>undefined\<close>. \<open>expand\<close> is \<open>option.expand && option.expand(message) || {}\<close>.
\<close>

definition getExec :: "Rule \<Rightarrow> int \<Rightarrow> error + template list option" where
  "getExec r index =
     (if index < 0 \<or> int (length (options r)) \<le> index then Inl TypeError
      else Inr (exec (options r ! nat index)))"

definition rule_expand :: "engine \<Rightarrow> Rule \<Rightarrow> int \<Rightarrow> jsv \<Rightarrow> error + jsv" where
  "rule_expand rx r index message =
     (if index < 0 \<or> int (length (options r)) \<le> index then Inl TypeError
      else case expand (options r ! nat index) of
             None \<Rightarrow> Inr (JObj [])
           | Some b \<Rightarrow> eval_bexpr rx message (BObj b))"

section \<open>Notions used in the properties\<close>






text \<open>\<open>p(message)\<close> is truthy: the predicate holds on the message.\<close>

definition holds :: "engine \<Rightarrow> pred \<Rightarrow> jsv \<Rightarrow> bool" where
  "holds rx p message = (case eval_pred rx p message of Inl e \<Rightarrow> False | Inr v \<Rightarrow> truthy v)"

definition selects :: "engine \<Rightarrow> jsv \<Rightarrow> rule_option \<Rightarrow> bool" where
  "selects rx message opt = (holds rx (match opt) message \<and> \<not> holds rx (match_not opt) message)"

text \<open>
  The capture groups a regular expression really has, read off the text as the
  engine reads it: a named group is \<open>(?<name>\<close> opening a group, an unnamed group a
  \<open>(\<close> that is not followed by \<open>?\<close>; neither counts after a backslash or inside a
  character class.
\<close>

fun realGroups :: "bool \<Rightarrow> string \<Rightarrow> nat \<times> nat" where
  "realGroups inClass [] = (0, 0)"
| "realGroups inClass (c # cs) =
     (if c = CHR 0x5C then
        (case cs of [] \<Rightarrow> (0, 0) | e # rest \<Rightarrow> realGroups inClass rest)
      else if inClass then realGroups (c \<noteq> CHR '']'') cs
      else if c = CHR ''['' then realGroups True cs
      else if c = CHR ''('' then
        (if group_name (c # cs) \<noteq> None
           then (Suc (fst (realGroups False cs)), snd (realGroups False cs))
         else if take 1 cs = ''?'' then realGroups False cs
         else (fst (realGroups False cs), Suc (snd (realGroups False cs))))
      else realGroups False cs)"

definition mixes_groups :: "string \<Rightarrow> bool" where
  "mixes_groups re = (0 < fst (realGroups False re) \<and> 0 < snd (realGroups False re))"



text \<open>
  A value whose text the model prints as JavaScript does: it converts to a string,
  and its numbers are below \<open>2^53\<close> in magnitude.
\<close>

fun exact_text :: "jsv \<Rightarrow> bool" where
  "exact_text (JNum n) = (\<bar>n\<bar> < 2 ^ 53)"
| "exact_text (JArr xs) = list_all exact_text xs"
| "exact_text (JObj kvs) = (map_of kvs ''toString'' = None)"
| "exact_text v = True"

section \<open>Properties\<close>

subsection \<open>Decimal numerals\<close>

lemma lt10_cases: "d < 10 \<Longrightarrow> d \<in> {0, 1, 2, 3, 4, 5, 6, 7, 8, 9::nat}"
  by auto

lemma digit_char_props:
  assumes "d < 10"
  shows "is_digit (digit_char d)" and "digit_val (digit_char d) = d"
    and "digit_char d \<noteq> CHR ''x''" and "digit_char d = CHR ''0'' \<longleftrightarrow> d = 0"
    and "digit_char d = CHR ''5'' \<longleftrightarrow> d = 5"
    and "CHR ''0'' = digit_char d \<longleftrightarrow> d = 0" and "CHR ''5'' = digit_char d \<longleftrightarrow> d = 5"
  using lt10_cases [OF assms] by (auto simp: digit_char_def is_digit_def digit_val_def)

lemma show_nat_small: "n < 10 \<Longrightarrow> show_nat n = [digit_char n]"
  by (simp add: show_nat.simps)

lemma show_nat_step: "10 \<le> n \<Longrightarrow> show_nat n = show_nat (n div 10) @ [digit_char (n mod 10)]"
  by (subst show_nat.simps) simp

lemma show_nat_digits: "list_all is_digit (show_nat n)"
  by (induction n rule: show_nat.induct) (subst show_nat.simps, simp add: digit_char_props)

lemma show_nat_nonempty: "show_nat n \<noteq> []"
  by (subst show_nat.simps) simp

lemma read_nat_snoc: "read_nat (s @ [c]) = 10 * read_nat s + digit_val c"
  by (simp add: read_nat_def)

lemma read_show_nat: "read_nat (show_nat n) = n"
proof (induction n rule: show_nat.induct)
  case (1 n)
  show ?case
  proof (cases "n < 10")
    case True
    then show ?thesis by (simp add: show_nat_small read_nat_def digit_char_props)
  next
    case False
    then show ?thesis
      using 1 by (simp add: show_nat_step read_nat_snoc digit_char_props)
  qed
qed

lemma show_nat_hd: "hd (show_nat n) = CHR ''0'' \<Longrightarrow> n = 0"
proof (induction n rule: show_nat.induct)
  case (1 n)
  show ?case
  proof (cases "n < 10")
    case True
    then show ?thesis using 1(2) by (simp add: show_nat_small digit_char_props)
  next
    case False
    then have "hd (show_nat n) = hd (show_nat (n div 10))"
      by (simp add: show_nat_step show_nat_nonempty)
    with 1 False have "n div 10 = 0" by simp
    with False show ?thesis by simp
  qed
qed

lemma show_nat_zero: "show_nat 0 = ''0''"
  by (simp add: show_nat_small digit_char_def)

lemma js_num_literal_show_nat: "js_num_literal (show_nat n) = int n"
proof (cases "1 < length (show_nat n) \<and> hd (show_nat n) = CHR ''0''")
  case True
  then have "n = 0" using show_nat_hd by blast
  with True show ?thesis by (simp add: show_nat_zero)
next
  case False
  then show ?thesis by (auto simp: js_num_literal_def read_show_nat)
qed

lemma show_nat_length:
  "length (show_nat n) = (if n < 10 then 1 else if n < 100 then 2 else if n < 1000 then 3 else 3 + length (show_nat (n div 1000)))"
proof -
  have a: "10 \<le> n \<Longrightarrow> length (show_nat n) = 1 + length (show_nat (n div 10))" for n
    by (simp add: show_nat_step)
  have b: "n < 10 \<Longrightarrow> length (show_nat n) = 1" for n
    by (simp add: show_nat_small)
  show ?thesis
  proof (cases "n < 10")
    case True then show ?thesis by (simp add: b)
  next
    case F1: False
    show ?thesis
    proof (cases "n < 100")
      case True with F1 show ?thesis using a [of n] b [of "n div 10"] by simp
    next
      case F2: False
      show ?thesis
      proof (cases "n < 1000")
        case True with F1 F2 show ?thesis 
          using a [of n] a [of "n div 10"] b [of "n div 10 div 10"] by (simp add: div_mult2_eq [symmetric])
      next
        case False with F1 F2 show ?thesis
          using a [of n] a [of "n div 10"] a [of "n div 10 div 10"] by (simp add: div_mult2_eq [symmetric])
      qed
    qed
  qed
qed

lemma show_nat_3: "100 \<le> n \<Longrightarrow> n < 1000 \<Longrightarrow>
  show_nat n = [digit_char (n div 100), digit_char (n div 10 mod 10), digit_char (n mod 10)]"
  by (simp add: show_nat_step show_nat_small div_mult2_eq [symmetric])

lemma div_digits: "(m::nat) div 100 = 5 \<and> m div 10 mod 10 = 0 \<longleftrightarrow> 500 \<le> m \<and> m \<le> 509"
proof
  assume a: "m div 100 = 5 \<and> m div 10 mod 10 = 0"
  then have "m div 10 div 10 = 5"
    by (simp add: div_mult2_eq [symmetric])
  with a have "m div 10 = 50"
    using div_mult_mod_eq [of "m div 10" 10] by simp
  then show "500 \<le> m \<and> m \<le> 509"
    using div_mult_mod_eq [of m 10] mod_less_divisor [of 10 m] by linarith
next
  assume "500 \<le> m \<and> m \<le> 509"
  then have "m div 10 = 50"
    by (intro div_nat_eqI) simp_all
  moreover have "m div 10 div 10 = m div 100"
    by (simp add: div_mult2_eq [symmetric])
  ultimately show "m div 100 = 5 \<and> m div 10 mod 10 = 0"
    by simp
qed

lemma status_matches_50x_nat:
  "status_matches ''50x'' (show_nat m) \<longleftrightarrow> 500 \<le> m \<and> m \<le> 509"
proof (cases "100 \<le> m \<and> m < 1000")
  case True
  then have d: "m div 100 < 10" "m div 10 mod 10 < 10" "m mod 10 < 10" by auto
  have "status_matches ''50x'' (show_nat m) \<longleftrightarrow> m div 100 = 5 \<and> m div 10 mod 10 = 0"
    using True d by (auto simp: show_nat_3 status_matches_def digit_char_props)
  also have "\<dots> \<longleftrightarrow> 500 \<le> m \<and> m \<le> 509" by (rule div_digits)
  finally show ?thesis .
next
  case False
  have len: "status_matches ''50x'' s \<Longrightarrow> length s = 3" for s
    by (auto simp: status_matches_def dest: list_all2_lengthD)
  from False have "length (show_nat m) \<noteq> 3"
    using show_nat_length [of m] show_nat_nonempty [of "m div 1000"]
    by (simp split: if_splits)
  with len have "\<not> status_matches ''50x'' (show_nat m)" by blast
  moreover from False have "\<not> (500 \<le> m \<and> m \<le> 509)" by arith
  ultimately show ?thesis by blast
qed

lemma show_nat_len: "length (show_nat n) \<le> Suc k \<longleftrightarrow> n < 10 ^ Suc k"
proof (induction k arbitrary: n)
  case 0
  show ?case
  proof (cases "n < 10")
    case True
    then show ?thesis by (simp add: show_nat_small)
  next
    case False
    then show ?thesis using show_nat_nonempty [of "n div 10"] by (simp add: show_nat_step)
  qed
next
  case (Suc k)
  show ?case
  proof (cases "n < 10")
    case True
    have "(1::nat) \<le> 10 ^ k" by simp
    with True have "n < 100 * 10 ^ k" by linarith
    with True show ?thesis by (simp add: show_nat_small)
  next
    case False
    then have "length (show_nat n) \<le> Suc (Suc k) \<longleftrightarrow> length (show_nat (n div 10)) \<le> Suc k"
      by (simp add: show_nat_step)
    also have "\<dots> \<longleftrightarrow> n div 10 < 10 ^ Suc k" by (rule Suc.IH)
    also have "\<dots> \<longleftrightarrow> n < 10 ^ Suc (Suc k)"
      by (simp add: div_less_iff_less_mult mult.commute)
    finally show ?thesis .
  qed
qed

lemma show_num_small: "n < 10 ^ 21 \<Longrightarrow> show_num n = show_nat n"
  using show_nat_len [of n 20] by (simp add: show_num_def)

lemma show_num_large: "10 ^ 21 \<le> n \<Longrightarrow> show_num n = exponent_form n"
  using show_nat_len [of n 20] by (simp add: show_num_def)

lemma exponent_form_e: "CHR ''e'' \<in> set (exponent_form n)"
  by (simp add: exponent_form_def Let_def)

lemma exponent_form_length: "4 \<le> length (exponent_form n)"
  using show_nat_nonempty [of "length (show_nat n) - 1"]
  by (cases "show_nat (length (show_nat n) - 1)") (simp_all add: exponent_form_def Let_def)

lemma status_matches_50x:
  "status_matches ''50x'' (show_int n) \<longleftrightarrow> 500 \<le> n \<and> n \<le> 509"
proof -
  have len: "status_matches ''50x'' s \<Longrightarrow> length s = 3" for s
    by (auto simp: status_matches_def dest: list_all2_lengthD)
  consider "n < 0" | "0 \<le> n" "nat n < 10 ^ 21" | "0 \<le> n" "10 ^ 21 \<le> nat n" by linarith
  then show ?thesis
  proof cases
    case 1
    have "\<not> status_matches ''50x'' (CHR ''-'' # s)" for s
      by (simp add: status_matches_def)
    with 1 show ?thesis by (simp add: show_int_def)
  next
    case 2
    then have "show_int n = show_nat (nat n)" by (simp add: show_int_def show_num_small)
    moreover from 2 have "(500 \<le> nat n \<and> nat n \<le> 509) = (500 \<le> n \<and> n \<le> 509)" by arith
    ultimately show ?thesis using status_matches_50x_nat [of "nat n"] by simp
  next
    case 3
    then have s: "show_int n = exponent_form (nat n)" by (simp add: show_int_def show_num_large)
    have "length (exponent_form (nat n)) \<noteq> 3"
      using exponent_form_length [of "nat n"] by simp
    with len s have "\<not> status_matches ''50x'' (show_int n)" by metis
    moreover from 3 have "\<not> n \<le> 509" by simp
    ultimately show ?thesis by blast
  qed
qed

lemma show_int_digits: "0 \<le> n \<Longrightarrow> n < 10 ^ 21 \<Longrightarrow> show_int n = show_nat (nat n)"
proof -
  assume a: "0 \<le> n" "n < 10 ^ 21"
  then have "nat n < nat (10 ^ 21)" by (intro nat_mono_iff [THEN iffD2]) simp_all
  then have "nat n < 10 ^ 21" by simp
  with a show ?thesis by (simp add: show_int_def show_num_small)
qed

lemma show_int_exponent: "10 ^ 21 \<le> n \<Longrightarrow> show_int n = exponent_form (nat n)"
proof -
  assume a: "10 ^ 21 \<le> n"
  then have "nat (10 ^ 21) \<le> nat n" by (intro nat_mono)
  then have "10 ^ 21 \<le> nat n" by simp
  moreover from a have "0 \<le> n" by simp
  ultimately show ?thesis by (simp add: show_int_def show_num_large)
qed

subsection \<open>Retry conditions\<close>

lemma to_string_ok: "stringable v \<Longrightarrow> to_string v = Inr (to_str v)"
  by (simp add: to_string_def)

lemma exact_text_stringable: "exact_text v \<Longrightarrow> stringable v"
  by (induction v rule: exact_text.induct) (auto simp: list_all_iff)

lemma get_prop_obj: "get_prop (JObj r) k = Inr (field (JObj r) k)"
  by (simp add: field_def)

lemma eval_cond_obj_eq:
  "stringable (field (JObj r) ''status'') \<Longrightarrow>
   eval_cond sfy (JObj r) c = Inr (eval_cond sfy (JObj r) c = Inr True)"
  by (cases c) (auto simp: get_prop_obj to_string_ok simp del: get_prop.simps)

lemma eval_or_obj:
  assumes "stringable (field (JObj r) ''status'')"
  shows "mapM (createCondition sfy f) opts = Inr cs \<Longrightarrow>
   eval_or sfy (JObj r) cs = Inr (list_ex (option_holds sfy (JObj r) f) opts)"
proof (induction opts arbitrary: cs)
  case Nil
  then show ?case by simp
next
  case (Cons o1 opts)
  then obtain c cs' where c: "createCondition sfy f o1 = Inr c"
    and cs': "mapM (createCondition sfy f) opts = Inr cs'" and cs: "cs = c # cs'"
    by (auto split: sum.splits)
  obtain b where b: "eval_cond sfy (JObj r) c = Inr b"
    using eval_cond_obj_eq [OF assms] by blast
  have nil: "cs' = [] \<Longrightarrow> opts = []"
    using cs' by (cases opts) (auto split: sum.splits)
  show ?case
    using Cons.IH [OF cs'] c b cs nil
    by (auto simp: option_holds_def)
qed

lemma eval_clause_obj:
  "stringable (field (JObj r) ''status'') \<Longrightarrow> compileClause sfy kv = Inr cl \<Longrightarrow>
   eval_clause sfy (JObj r) cl = Inr (field_holds sfy (JObj r) kv)"
  using eval_cond_obj_eq [of r sfy]
  by (cases "snd kv")
    (auto simp: compileClause_def field_holds_def option_holds_def eval_or_obj split: sum.splits)

lemma classify_obj:
  assumes "stringable (field (JObj r) ''status'')"
  shows "mapM (compileClause sfy) kvs = Inr cls \<Longrightarrow>
   classify sfy cls (JObj r) = Inr (list_all (field_holds sfy (JObj r)) kvs)"
proof (induction kvs arbitrary: cls)
  case Nil
  then show ?case by simp
next
  case (Cons kv kvs)
  then obtain c cs' where c: "compileClause sfy kv = Inr c"
    and cs': "mapM (compileClause sfy) kvs = Inr cs'" and cs: "cls = c # cs'"
    by (auto split: sum.splits)
  have nil: "cs' = [] \<Longrightarrow> kvs = []"
    using cs' by (cases kvs) (auto split: sum.splits)
  show ?case
    using Cons.IH [OF cs'] eval_clause_obj [OF assms c] cs nil
    by auto
qed

text \<open>
  For a stanza whose generated text the model reads, and a result object whose
  status converts to a string, the classifier returns the conjunction over the
  stanza's fields of the field's condition, where a field whose options are an array
  holds when at least one option of the array holds.
\<close>

lemma classifier_and_or:
  assumes "compileErrorCheckCondition sfy (JObj stanza) = Built cls"
    and "stringable (field (JObj r) ''status'')"
  shows "classify sfy cls (JObj r) = Inr (stanza_holds sfy stanza (JObj r))"
  using assms(1) classify_obj [OF assms(2), of sfy stanza cls]
  by (auto simp: compileErrorCheckCondition_def conditions_def stanza_holds_def
      split: sum.splits if_splits)

lemma compile_single:
  "createCondition sfy k opt = Inr c \<Longrightarrow> \<not> isArray opt \<Longrightarrow> plain_cond c \<Longrightarrow>
   compileErrorCheckCondition sfy (JObj [(k, opt)]) = Built [Single c]"
  by (cases opt)
    (simp_all add: compileErrorCheckCondition_def conditions_def compileClause_def parses_def isArray_def)

lemma compile_single_error:
  "createCondition sfy k opt = Inl e \<Longrightarrow> \<not> isArray opt \<Longrightarrow>
   compileErrorCheckCondition sfy (JObj [(k, opt)]) = Throws e"
  by (cases opt)
    (simp_all add: compileErrorCheckCondition_def conditions_def compileClause_def isArray_def)

lemma createCondition_number:
  "0 \<le> n \<Longrightarrow> n < 10 ^ 21 \<Longrightarrow>
   createCondition sfy ''status'' (JNum n) = Inr (StatusEq (show_nat (nat n)))"
  by (simp add: createCondition_def toString_def to_string_def show_int_digits
      show_nat_nonempty show_nat_digits)

lemma createCondition_exponent:
  assumes "10 ^ 21 \<le> n"
  shows "createCondition sfy ''status'' (JNum n) = Inl (InvalidRetryCondition (show_int n))"
proof -
  have e: "CHR ''e'' \<in> set (show_int n)"
    using assms by (simp add: show_int_exponent exponent_form_e)
  have "\<not> is_digit (CHR ''e'')" by (simp add: is_digit_def)
  with e have "\<not> list_all is_digit (show_int n)"
    and "\<not> list_all (\<lambda>c. is_digit c \<or> c = CHR ''x'') (show_int n)"
    unfolding list_all_iff by auto
  then show ?thesis
    by (simp add: createCondition_def toString_def to_string_def)
qed

text \<open>
  C2, as the specification words it: the pattern \<open>"50x"\<close> is true for every status
  from 500 to 599. The classifier compiled from \<open>{status: "50x"}\<close> is false on the
  status 550.
\<close>

theorem C2_50x_rejects_550:
  "compileErrorCheckCondition (\<lambda>v. JUndef) (JObj [(''status'', JStr ''50x'')])
     = Built [Single (StatusTest ''50x'')]
   \<and> classify (\<lambda>v. JUndef) [Single (StatusTest ''50x'')] (JObj [(''status'', JNum 550)])
     = Inr False"
proof -
  have "createCondition (\<lambda>v. JUndef) ''status'' (JStr ''50x'') = Inr (StatusTest ''50x'')"
    by (simp add: createCondition_def toString_def to_string_def is_digit_def)
  then have "compileErrorCheckCondition (\<lambda>v. JUndef) (JObj [(''status'', JStr ''50x'')])
     = Built [Single (StatusTest ''50x'')]"
    by (simp add: compile_single isArray_def)
  moreover have "classify (\<lambda>v. JUndef) [Single (StatusTest ''50x'')] (JObj [(''status'', JNum 550)])
     = Inr False"
    using status_matches_50x [of 550] by (simp add: to_string_def)
  ultimately show ?thesis by simp
qed

text \<open>
  C2, amended. For a stanza whose only field is \<open>status\<close>, with a single option, and for
  every result object:
  \<^item> a number \<open>n\<close> with \<open>0 \<le> n < 10^21\<close> compiles to a classifier that is true exactly
    when the result's status is the number \<open>n\<close>;
  \<^item> a number from \<open>10^21\<close> on, whose string form is in exponent notation, makes the
    compilation throw;
  \<^item> a non-empty pattern of digits and \<open>x\<close> compiles to a classifier that, on a
    status whose text is exact (\<open>exact_text\<close>: a string, say, or an integer below
    \<open>2^53\<close>), is true exactly when the status, converted to a string, has the
    pattern's length, agrees with it on every digit and has a digit wherever the
    pattern has \<open>x\<close>;
  \<^item> in particular \<open>"50x"\<close> compiles to the test \<open>/^50\d$/\<close>, true on a numeric
    status exactly from 500 to 509;
  \<^item> an option whose string form is neither a non-empty run of digits nor a non-empty
    run of digits and \<open>x\<close> makes the compilation throw.
\<close>

theorem C2_status_options:
  "(0 \<le> n \<and> n < 10 ^ 21 \<longrightarrow>
      (\<exists>cls. compileErrorCheckCondition sfy (JObj [(''status'', JNum n)]) = Built cls
         \<and> classify sfy cls (JObj r) = Inr (field (JObj r) ''status'' = JNum n)))
   \<and> (10 ^ 21 \<le> n \<longrightarrow>
      (\<exists>s. compileErrorCheckCondition sfy (JObj [(''status'', JNum n)])
            = Throws (InvalidRetryCondition s)))
   \<and> (pat \<noteq> [] \<and> list_all (\<lambda>c. is_digit c \<or> c = CHR ''x'') pat \<and> CHR ''x'' \<in> set pat \<longrightarrow>
      compileErrorCheckCondition sfy (JObj [(''status'', JStr pat)]) = Built [Single (StatusTest pat)]
      \<and> (exact_text (field (JObj r) ''status'') \<longrightarrow>
          classify sfy [Single (StatusTest pat)] (JObj r)
            = Inr (list_all2 (\<lambda>p c. if p = CHR ''x'' then is_digit c else p = c) pat
                     (to_str (field (JObj r) ''status'')))))
   \<and> compileErrorCheckCondition sfy (JObj [(''status'', JStr ''50x'')])
        = Built [Single (StatusTest ''50x'')]
   \<and> classify sfy [Single (StatusTest ''50x'')] (JObj [(''status'', JNum code)])
        = Inr (500 \<le> code \<and> code \<le> 509)
   \<and> (exact_text opt \<and> toString opt = Inr s \<and> \<not> isArray opt
        \<and> \<not> (s \<noteq> [] \<and> list_all is_digit s)
        \<and> \<not> (s \<noteq> [] \<and> list_all (\<lambda>c. is_digit c \<or> c = CHR ''x'') s) \<longrightarrow>
      compileErrorCheckCondition sfy (JObj [(''status'', opt)]) = Throws (InvalidRetryCondition s))"
proof (intro conjI impI)
  assume a: "0 \<le> n \<and> n < 10 ^ 21"
  then have c: "compileErrorCheckCondition sfy (JObj [(''status'', JNum n)])
      = Built [Single (StatusEq (show_nat (nat n)))]"
    by (simp add: compile_single createCondition_number isArray_def)
  from a have "js_num_literal (show_nat (nat n)) = n"
    by (simp add: js_num_literal_show_nat)
  then have "classify sfy [Single (StatusEq (show_nat (nat n)))] (JObj r)
          = Inr (field (JObj r) ''status'' = JNum n)"
    by (simp add: get_prop_obj del: get_prop.simps)
  with c show "\<exists>cls. compileErrorCheckCondition sfy (JObj [(''status'', JNum n)]) = Built cls
         \<and> classify sfy cls (JObj r) = Inr (field (JObj r) ''status'' = JNum n)"
    by blast
next
  assume "10 ^ 21 \<le> n"
  then have "createCondition sfy ''status'' (JNum n) = Inl (InvalidRetryCondition (show_int n))"
    by (rule createCondition_exponent)
  then have "compileErrorCheckCondition sfy (JObj [(''status'', JNum n)])
            = Throws (InvalidRetryCondition (show_int n))"
    by (simp add: compile_single_error isArray_def)
  then show "\<exists>s. compileErrorCheckCondition sfy (JObj [(''status'', JNum n)])
            = Throws (InvalidRetryCondition s)"
    by blast
next
  assume p: "pat \<noteq> [] \<and> list_all (\<lambda>c. is_digit c \<or> c = CHR ''x'') pat \<and> CHR ''x'' \<in> set pat"
  have "\<not> is_digit (CHR ''x'')"
    by (simp add: is_digit_def)
  with p have "\<not> list_all is_digit pat"
    unfolding list_all_iff by blast
  with p have "createCondition sfy ''status'' (JStr pat) = Inr (StatusTest pat)"
    by (simp add: createCondition_def toString_def to_string_def)
  then show "compileErrorCheckCondition sfy (JObj [(''status'', JStr pat)]) = Built [Single (StatusTest pat)]"
    by (simp add: compile_single isArray_def)
next
  assume "exact_text (field (JObj r) ''status'')"
  then have "to_string (field (JObj r) ''status'') = Inr (to_str (field (JObj r) ''status''))"
    by (simp add: exact_text_stringable to_string_ok)
  then show "classify sfy [Single (StatusTest pat)] (JObj r)
            = Inr (list_all2 (\<lambda>p c. if p = CHR ''x'' then is_digit c else p = c) pat
                     (to_str (field (JObj r) ''status'')))"
    by (simp add: status_matches_def get_prop_obj del: get_prop.simps)
next
  have "createCondition sfy ''status'' (JStr ''50x'') = Inr (StatusTest ''50x'')"
    by (simp add: createCondition_def toString_def to_string_def is_digit_def)
  then show "compileErrorCheckCondition sfy (JObj [(''status'', JStr ''50x'')])
        = Built [Single (StatusTest ''50x'')]"
    by (simp add: compile_single isArray_def)
next
  show "classify sfy [Single (StatusTest ''50x'')] (JObj [(''status'', JNum code)])
        = Inr (500 \<le> code \<and> code \<le> 509)"
    using status_matches_50x [of code] by (simp add: to_string_def)
next
  assume a: "exact_text opt \<and> toString opt = Inr s \<and> \<not> isArray opt
        \<and> \<not> (s \<noteq> [] \<and> list_all is_digit s)
        \<and> \<not> (s \<noteq> [] \<and> list_all (\<lambda>c. is_digit c \<or> c = CHR ''x'') s)"
  then have "createCondition sfy ''status'' opt = Inl (InvalidRetryCondition s)"
    by (auto simp: createCondition_def)
  with a show "compileErrorCheckCondition sfy (JObj [(''status'', opt)]) = Throws (InvalidRetryCondition s)"
    by (simp add: compile_single_error)
qed

theorem C2_status_options_witness:
  "((0::int) \<le> 404 \<and> (404::int) < 10 ^ 21)
   \<and> (\<exists>cls. compileErrorCheckCondition (\<lambda>v. JUndef) (JObj [(''status'', JNum 404)]) = Built cls
         \<and> classify (\<lambda>v. JUndef) cls (JObj [(''status'', JNum 404)])
             = Inr (field (JObj [(''status'', JNum 404)]) ''status'' = JNum 404))
   \<and> (10::int) ^ 21 \<le> 10 ^ 21
   \<and> (\<exists>s. compileErrorCheckCondition (\<lambda>v. JUndef) (JObj [(''status'', JNum (10 ^ 21))])
            = Throws (InvalidRetryCondition s))
   \<and> (''4x4'' \<noteq> [] \<and> list_all (\<lambda>c. is_digit c \<or> c = CHR ''x'') ''4x4'' \<and> CHR ''x'' \<in> set ''4x4'')
   \<and> compileErrorCheckCondition (\<lambda>v. JUndef) (JObj [(''status'', JStr ''4x4'')])
       = Built [Single (StatusTest ''4x4'')]
   \<and> exact_text (field (JObj [(''status'', JNum 404)]) ''status'')
   \<and> classify (\<lambda>v. JUndef) [Single (StatusTest ''4x4'')] (JObj [(''status'', JNum 404)])
       = Inr (list_all2 (\<lambda>p c. if p = CHR ''x'' then is_digit c else p = c) ''4x4''
                (to_str (field (JObj [(''status'', JNum 404)]) ''status'')))
   \<and> classify (\<lambda>v. JUndef) [Single (StatusTest ''50x'')] (JObj [(''status'', JNum 503)])
       = Inr (500 \<le> (503::int) \<and> (503::int) \<le> 509)
   \<and> (exact_text (JStr ''5oo'') \<and> toString (JStr ''5oo'') = Inr ''5oo'' \<and> \<not> isArray (JStr ''5oo'')
       \<and> \<not> (''5oo'' \<noteq> [] \<and> list_all is_digit ''5oo'')
       \<and> \<not> (''5oo'' \<noteq> [] \<and> list_all (\<lambda>c. is_digit c \<or> c = CHR ''x'') ''5oo''))
   \<and> compileErrorCheckCondition (\<lambda>v. JUndef) (JObj [(''status'', JStr ''5oo'')])
       = Throws (InvalidRetryCondition ''5oo'')"
proof -
  note t = C2_status_options [of 404 "\<lambda>v. JUndef" "[(''status'', JNum 404)]" "''4x4''" 503
      "JStr ''5oo''" "''5oo''"]
  note u = C2_status_options [of "10 ^ 21" "\<lambda>v. JUndef" "[]" "''4x4''" 503
      "JStr ''5oo''" "''5oo''"]
  have h1: "(0::int) \<le> 404 \<and> (404::int) < 10 ^ 21" by simp
  have h2: "''4x4'' \<noteq> [] \<and> list_all (\<lambda>c. is_digit c \<or> c = CHR ''x'') ''4x4'' \<and> CHR ''x'' \<in> set ''4x4''"
    by (simp add: is_digit_def)
  have h3: "exact_text (JStr ''5oo'') \<and> toString (JStr ''5oo'') = Inr ''5oo'' \<and> \<not> isArray (JStr ''5oo'')
       \<and> \<not> (''5oo'' \<noteq> [] \<and> list_all is_digit ''5oo'')
       \<and> \<not> (''5oo'' \<noteq> [] \<and> list_all (\<lambda>c. is_digit c \<or> c = CHR ''x'') ''5oo'')"
    by (simp add: toString_def to_string_def isArray_def is_digit_def)
  have h4: "exact_text (field (JObj [(''status'', JNum 404)]) ''status'')"
    by (simp add: field_def)
  have h5: "(10::int) ^ 21 \<le> 10 ^ 21" by simp
  from u h5 have big: "\<exists>s. compileErrorCheckCondition (\<lambda>v. JUndef) (JObj [(''status'', JNum (10 ^ 21))])
            = Throws (InvalidRetryCondition s)"
    by blast
  from t h1 have small: "\<exists>cls. compileErrorCheckCondition (\<lambda>v. JUndef) (JObj [(''status'', JNum 404)]) = Built cls
         \<and> classify (\<lambda>v. JUndef) cls (JObj [(''status'', JNum 404)])
             = Inr (field (JObj [(''status'', JNum 404)]) ''status'' = JNum 404)"
    by blast
  from t h1 h2 h3 h4 h5 big small show ?thesis by blast
qed

text \<open>
  C4: the classifier compiled from a stanza should be the conjunction of the
  conditions of its fields. \<open>createCondition\<close> splices the stringified option between
  single quotes without escaping it. For the stanza
  \<open>{status: 404, body: "') || (true) || ('"}\<close>, with a \<open>stringify\<close> that writes a
  string between double quotes as \<open>json-stable-stringify\<close> does for this one, the
  generated text is
  \<open>return ((res["status"] === 404) && (stringify(res["body"]) === '"') || (true) || ('"'));\<close>
  which is a disjunction with the operand \<open>(true)\<close>: the function returns a truthy
  value on every result, whatever its status, while the stanza read as a
  conjunction does not hold on a result of status 500. The text is not one the
  model reads.
\<close>

theorem C4_spliced_option_escapes:
  \<open>generatedCode (\<lambda>v. case v of JStr s \<Rightarrow> JStr (dquote @ s @ dquote) | _ \<Rightarrow> JUndef)
       (JObj [(''status'', JNum 404), (''body'', JStr (squote @ '') || (true) || ('' @ squote))])
     = Inr (''return ((res["status"] === 404) && (stringify(res["body"]) === ''
              @ squote @ ''"'' @ squote @ '') || (true) || ('' @ squote @ ''"'' @ squote @ ''));'')
   \<and> compileErrorCheckCondition
         (\<lambda>v. case v of JStr s \<Rightarrow> JStr (dquote @ s @ dquote) | _ \<Rightarrow> JUndef)
         (JObj [(''status'', JNum 404), (''body'', JStr (squote @ '') || (true) || ('' @ squote))])
     = Beyond
   \<and> \<not> stanza_holds (\<lambda>v. case v of JStr s \<Rightarrow> JStr (dquote @ s @ dquote) | _ \<Rightarrow> JUndef)
         [(''status'', JNum 404), (''body'', JStr (squote @ '') || (true) || ('' @ squote))]
         (JObj [(''status'', JNum 500)])\<close>
  by code_simp

subsection \<open>Data-centre names\<close>

text \<open>
  C6, as the specification words it: the consume name is \<open>consume_dc\<close> when given, then
  \<open>dc_name\<close>, then the default. With both \<open>dc_name\<close> and \<open>consume_dc\<close> set, the getter
  answers \<open>dc_name\<close>.
\<close>

theorem C6_dc_name_wins:
  "newKafkaFactory (JObj [(''metadata_broker_list'', JStr ''localhost:9092''),
        (''dc_name'', JStr ''dc1''), (''consume_dc'', JStr ''dc2'')])
     = Inr \<lparr> kafkaConf = JObj [(''metadata_broker_list'', JStr ''localhost:9092''),
        (''dc_name'', JStr ''dc1''), (''consume_dc'', JStr ''dc2'')] \<rparr>
   \<and> consumeDC \<lparr> kafkaConf = JObj [(''metadata_broker_list'', JStr ''localhost:9092''),
        (''dc_name'', JStr ''dc1''), (''consume_dc'', JStr ''dc2'')] \<rparr> = JStr ''dc1''
   \<and> spec_consumeDC \<lparr> kafkaConf = JObj [(''metadata_broker_list'', JStr ''localhost:9092''),
        (''dc_name'', JStr ''dc1''), (''consume_dc'', JStr ''dc2'')] \<rparr> = JStr ''dc2''"
  by (simp add: newKafkaFactory_def without_topic_conf_def field_def consumeDC_def
      spec_consumeDC_def conf_field_def js_or_def)

text \<open>
  C6, amended: for every Kafka configuration the consume name is \<open>dc_name\<close> when that
  is set (truthy), otherwise \<open>consume_dc\<close> when set, otherwise \<open>"datacenter1"\<close>; the
  produce name is \<open>dc_name\<close> when set, otherwise \<open>produce_dc\<close> when set, otherwise
  \<open>"datacenter1"\<close>. The direction-specific names are the fallback of \<open>dc_name\<close>.
\<close>

theorem C6_dc_precedence:
  "consumeDC f =
     (if truthy (conf_field f ''dc_name'') then conf_field f ''dc_name''
      else if truthy (conf_field f ''consume_dc'') then conf_field f ''consume_dc''
      else JStr ''datacenter1'')
   \<and> produceDC f =
     (if truthy (conf_field f ''dc_name'') then conf_field f ''dc_name''
      else if truthy (conf_field f ''produce_dc'') then conf_field f ''produce_dc''
      else JStr ''datacenter1'')"
  by (simp add: consumeDC_def produceDC_def js_or_def)

subsection \<open>Guaranteed producer\<close>

text \<open>
  C7: a call of \<open>produce\<close> with an empty (falsy) key schedules the rejection of the
  returned promise and changes nothing: nothing is handed to the underlying producer
  and the pending table is as before. A call whose \<open>"<tp>:<key>"\<close> already has an
  entry in the pending table schedules a rejection with the duplicate-key error and
  also leaves the state, hence the existing entry, as it was.
\<close>

theorem C7_produce_rejects:
  "(\<not> truthy key \<longrightarrow>
      produce super gp resolve tp part message key = (gp, Some (TickReject KeyRequired)))
   \<and> (truthy key \<and> pending gp (reportKey tp key) = Some r \<longrightarrow>
      produce super gp resolve tp part message key
        = (gp, Some (TickReject (DuplicateKey (reportKey tp key)))))"
  by (simp add: produce_def)

theorem C7_produce_rejects_witness:
  "\<not> truthy (JStr []) \<and>
   produce (\<lambda>t p m k. Returned (JBool True)) \<lparr> pending = Map.empty, calls = [] \<rparr> 1
       (JStr ''topic'') (JNum 0) (JStr ''msg'') (JStr [])
     = (\<lparr> pending = Map.empty, calls = [] \<rparr>, Some (TickReject KeyRequired))
   \<and> truthy (JStr ''k'')
   \<and> pending \<lparr> pending = [''topic:k'' \<mapsto> 7], calls = [] \<rparr> (reportKey (JStr ''topic'') (JStr ''k'')) = Some 7
   \<and> produce (\<lambda>t p m k. Returned (JBool True)) \<lparr> pending = [''topic:k'' \<mapsto> 7], calls = [] \<rparr> 1
       (JStr ''topic'') (JNum 0) (JStr ''msg'') (JStr ''k'')
     = (\<lparr> pending = [''topic:k'' \<mapsto> 7], calls = [] \<rparr>,
        Some (TickReject (DuplicateKey (reportKey (JStr ''topic'') (JStr ''k'')))))"
  using C7_produce_rejects [of "JStr []" "\<lambda>t p m k. Returned (JBool True)"
      "\<lparr> pending = Map.empty, calls = [] \<rparr>" 1 "JStr ''topic''" "JNum 0" "JStr ''msg''" 0]
    C7_produce_rejects [of "JStr ''k''" "\<lambda>t p m k. Returned (JBool True)"
      "\<lparr> pending = [''topic:k'' \<mapsto> 7], calls = [] \<rparr>" 1 "JStr ''topic''" "JNum 0" "JStr ''msg''" 7]
  by (simp add: reportKey_def)

text \<open>
  C10: when the key is non-empty and has no pending entry, and the underlying
  \<open>produce\<close> throws or returns something other than \<open>true\<close>, the call registers the
  entry, hands the message to the underlying producer and schedules one callback;
  that callback deletes the entry before it rejects, so after it the pending table is
  the table from before the call.
\<close>

theorem C10_failed_produce_restores_pending:
  assumes "truthy key"
    and "pending gp (reportKey tp key) = None"
    and "super tp part message key = Threw e
         \<or> (super tp part message key = Returned v \<and> v \<noteq> JBool True)"
  shows "\<exists>gp' tk. produce super gp resolve tp part message key = (gp', Some tk)
           \<and> pending gp' (reportKey tp key) = Some resolve
           \<and> tk = TickDeleteReject (reportKey tp key)
                  (case super tp part message key of Threw x \<Rightarrow> x | Returned x \<Rightarrow> Rejected x)
           \<and> pending (fst (run_tick gp' tk)) = pending gp"
proof -
  let ?k = "reportKey tp key"
  have restore: "((pending gp)(?k \<mapsto> resolve))(?k := None) = pending gp"
    using assms(2) by (auto simp: fun_eq_iff)
  from assms(3) show ?thesis
  proof
    assume "super tp part message key = Threw e"
    with assms(1,2) restore show ?thesis
      by (simp add: produce_def Let_def)
  next
    assume "super tp part message key = Returned v \<and> v \<noteq> JBool True"
    with assms(1,2) restore show ?thesis
      by (simp add: produce_def Let_def)
  qed
qed

theorem C10_failed_produce_restores_pending_witness:
  "\<exists>gp' tk. produce (\<lambda>t p m k. Returned (JNum (-1))) \<lparr> pending = Map.empty, calls = [] \<rparr> 1
         (JStr ''topic'') (JNum 0) (JStr ''msg'') (JStr ''k'') = (gp', Some tk)
       \<and> pending gp' (reportKey (JStr ''topic'') (JStr ''k'')) = Some 1
       \<and> tk = TickDeleteReject (reportKey (JStr ''topic'') (JStr ''k'')) (Rejected (JNum (-1)))
       \<and> pending (fst (run_tick gp' tk)) = Map.empty"
  using C10_failed_produce_restores_pending [of "JStr ''k''" "\<lparr> pending = Map.empty, calls = [] \<rparr>"
      "JStr ''topic''" "\<lambda>t p m k. Returned (JNum (-1))" "JNum 0" "JStr ''msg''" TypeError "JNum (-1)" 1]
  by simp

subsection \<open>Rule construction\<close>

lemma map_of_assign: "map_of (assign kvs k v) = (map_of kvs)(k \<mapsto> v)"
  by (induction kvs) (auto simp: fun_eq_iff)

lemma field_obj: "field (JObj kvs) k = (case map_of kvs k of None \<Rightarrow> JUndef | Some v \<Rightarrow> v)"
  by (simp add: field_def)

lemma with_default_obj:
  "with_default (JObj kvs) k d = JObj (assign kvs k (js_or (field (JObj kvs) k) d))"
  by (simp add: with_default_def set_field_def)

lemma field_with_default:
  "field (with_default (JObj kvs) k d) k' =
     (if k' = k then js_or (field (JObj kvs) k) d else field (JObj kvs) k')"
  by (simp add: with_default_obj field_obj map_of_assign)









subsection \<open>Match compiler\<close>

















lemma conj_falsy:
  "(\<forall>a\<in>set as. \<not> isl (eval_atom rx v a)) \<Longrightarrow> a \<in> set as \<Longrightarrow>
   eval_atom rx v a = Inr x \<Longrightarrow> \<not> truthy x \<Longrightarrow>
   \<exists>r. eval_conj rx v as = Inr r \<and> \<not> truthy r"
proof (induction as)
  case Nil
  then show ?case by simp
next
  case (Cons a' as)
  from Cons.prems(1) obtain y where y: "eval_atom rx v a' = Inr y"
    by (cases "eval_atom rx v a'") auto
  show ?case
  proof (cases "truthy y")
    case False
    with y show ?thesis by simp
  next
    case True
    with y Cons.prems(3,4) have "a \<noteq> a'" by auto
    with Cons.prems(2) have a: "a \<in> set as" by simp
    then have "as \<noteq> []" by auto
    with Cons.IH [OF _ a Cons.prems(3,4)] Cons.prems(1) y True show ?thesis by simp
  qed
qed

















text \<open>
  C8: a regular expression that mixes named and unnamed capture groups should be
  refused when the rule is built. \<open>_compileNamedRegex\<close> compares the number of
  \<open>(?<name>\<close> texts it replaced with the number of groups of the result, and a
  \<open>(?<name>\<close> text inside a character class is replaced and counted although it
  opens no group. The expression \<open>/(?<a>x)(y)[(?<b>]/\<close> has the named group \<open>a\<close> and
  the unnamed group \<open>(y)\<close>; two names are collected, the normalised expression
  \<open>/(x)(y)[(]/\<close> has two groups, and the rule is built, with \<open>b\<close> bound to the
  unnamed group.
\<close>

theorem C8_mixed_regex_accepted:
  "mixes_groups ''/(?<a>x)(y)[(?<b>]/''
   \<and> processMatch (JObj [(''f'', JStr ''/(?<a>x)(y)[(?<b>]/'')])
       = Built (Some ([ATest ''/(x)(y)[(]/'' [''f'']],
                      [(''f'', BNamed ''/(x)(y)[(]/'' [''f''] [''a'', ''b''])]))
   \<and> built (newRule (\<lambda>v. JUndef) ''r''
         (JObj [(''topic'', JStr ''t''), (''match'', JObj [(''f'', JStr ''/(?<a>x)(y)[(?<b>]/'')])]))"
  by code_simp

subsection \<open>Testing an event against a rule\<close>

lemma findIndex_returns:
  "findIndex cb xs i = Inr k \<Longrightarrow>
     (k = - 1 \<and> (\<forall>x\<in>set xs. cb x = Inr False))
   \<or> (\<exists>j<length xs. k = int (i + j) \<and> cb (xs ! j) = Inr True
          \<and> (\<forall>l<j. cb (xs ! l) = Inr False))"
proof (induction xs arbitrary: i)
  case Nil
  then show ?case by simp
next
  case (Cons x xs)
  from Cons.prems obtain b where b: "cb x = Inr b"
    by (cases "cb x") auto
  show ?case
  proof (cases b)
    case True
    with b Cons.prems have "0 < length (x # xs) \<and> k = int (i + 0) \<and> cb ((x # xs) ! 0) = Inr True
        \<and> (\<forall>l<0. cb ((x # xs) ! l) = Inr False)"
      by simp
    then show ?thesis by blast
  next
    case False
    with b Cons.prems have "findIndex cb xs (Suc i) = Inr k" by simp
    from Cons.IH [OF this] show ?thesis
    proof
      assume "k = - 1 \<and> (\<forall>x\<in>set xs. cb x = Inr False)"
      with b False show ?thesis by simp
    next
      assume "\<exists>j<length xs. k = int (Suc i + j) \<and> cb (xs ! j) = Inr True
          \<and> (\<forall>l<j. cb (xs ! l) = Inr False)"
      then obtain j where j: "j < length xs" "k = int (Suc i + j)"
        "cb (xs ! j) = Inr True" "\<forall>l<j. cb (xs ! l) = Inr False"
        by blast
      have "\<forall>l<Suc j. cb ((x # xs) ! l) = Inr False"
        using j(4) b False by (auto simp: nth_Cons split: nat.splits)
      with j have "Suc j < length (x # xs) \<and> k = int (i + Suc j)
          \<and> cb ((x # xs) ! Suc j) = Inr True \<and> (\<forall>l<Suc j. cb ((x # xs) ! l) = Inr False)"
        by simp
      then show ?thesis by blast
    qed
  qed
qed

lemma findIndex_raises:
  "findIndex cb xs i = Inl e \<longleftrightarrow>
     (\<exists>j<length xs. cb (xs ! j) = Inl e \<and> (\<forall>l<j. cb (xs ! l) = Inr False))"
proof (induction xs arbitrary: i)
  case Nil
  then show ?case by simp
next
  case (Cons x xs)
  let ?R = "\<lambda>ys. \<exists>j<length ys. cb (ys ! j) = Inl e \<and> (\<forall>l<j. cb (ys ! l) = Inr False)"
  show ?case
  proof (cases "cb x = Inr False")
    case True
    have "?R (x # xs) \<longleftrightarrow> ?R xs"
    proof
      assume "?R (x # xs)"
      then obtain j where j: "j < length (x # xs)" "cb ((x # xs) ! j) = Inl e"
        "\<forall>l<j. cb ((x # xs) ! l) = Inr False"
        by blast
      with True obtain j' where j': "j = Suc j'" by (cases j) auto
      from j(3) j' have "\<forall>l<j'. cb (xs ! l) = Inr False"
        by (metis Suc_less_eq nth_Cons_Suc)
      with j j' show "?R xs" by auto
    next
      assume "?R xs"
      then obtain j where j: "j < length xs" "cb (xs ! j) = Inl e"
        "\<forall>l<j. cb (xs ! l) = Inr False"
        by blast
      have "\<forall>l<Suc j. cb ((x # xs) ! l) = Inr False"
        using j(3) True by (auto simp: nth_Cons split: nat.splits)
      with j have "Suc j < length (x # xs) \<and> cb ((x # xs) ! Suc j) = Inl e
          \<and> (\<forall>l<Suc j. cb ((x # xs) ! l) = Inr False)"
        by simp
      then show "?R (x # xs)" by blast
    qed
    with True Cons.IH [of "Suc i"] show ?thesis by simp
  next
    case False
    have "?R (x # xs) \<longleftrightarrow> cb x = Inl e"
    proof
      assume "?R (x # xs)"
      then obtain j where j: "j < length (x # xs)" "cb ((x # xs) ! j) = Inl e"
        "\<forall>l<j. cb ((x # xs) ! l) = Inr False"
        by blast
      show "cb x = Inl e"
      proof (cases j)
        case 0
        with j(2) show ?thesis by simp
      next
        case (Suc j')
        with j(3) have "cb ((x # xs) ! 0) = Inr False" by blast
        with False show ?thesis by simp
      qed
    next
      assume "cb x = Inl e"
      then have "0 < length (x # xs) \<and> cb ((x # xs) ! 0) = Inl e
          \<and> (\<forall>l<0. cb ((x # xs) ! l) = Inr False)"
        by simp
      then show "?R (x # xs)" by blast
    qed
    moreover from False have "findIndex cb (x # xs) i = Inl e \<longleftrightarrow> cb x = Inl e"
      by (cases "cb x") auto
    ultimately show ?thesis by simp
  qed
qed

lemma option_test_value: "option_test rx msg opt = Inr b \<Longrightarrow> b = selects rx msg opt"
  by (auto simp: option_test_def selects_def holds_def split: sum.splits if_splits)

text \<open>
  C5, as the specification words it, for every event: the rule with the single match
  \<open>{a: {b: "x"}}\<close> has no option whose match holds on the event \<open>{}\<close>, and \<open>test\<close>
  does not return \<open>-1\<close> there: the predicate raises a TypeError and so does \<open>test\<close>.
\<close>

theorem C5_test_raises:
  "(case newRule (\<lambda>v. JUndef) ''r''
           (JObj [(''topic'', JStr ''t''),
                  (''match'', JObj [(''a'', JObj [(''b'', JStr ''x'')])])]) of
      Built r \<Rightarrow> Some (rule_test (\<lambda>re s. None) r (JObj []))
    | _ \<Rightarrow> None) = Some (Inl TypeError)"
  by code_simp

text \<open>
  C5, amended: for every rule and every event, whenever \<open>test\<close> returns, it returns
  the index of the first option, in declaration order, whose \<open>match\<close> holds and whose
  \<open>match_not\<close> does not, and \<open>-1\<close> when there is no such option. \<open>test\<close> raises an
  error exactly when evaluating \<open>match(event) && !match_not(event)\<close> raises that
  error for some option and gave \<open>false\<close> for every option before it.
\<close>

theorem C5_test_first_selected:
  "(\<forall>k. rule_test rx r msg = Inr k \<longrightarrow>
        (k = - 1 \<and> (\<forall>opt\<in>set (options r). \<not> selects rx msg opt))
      \<or> (\<exists>i<length (options r). k = int i \<and> selects rx msg (options r ! i)
            \<and> (\<forall>j<i. \<not> selects rx msg (options r ! j))))
   \<and> (\<forall>e. rule_test rx r msg = Inl e \<longleftrightarrow>
        (\<exists>i<length (options r). option_test rx msg (options r ! i) = Inl e
            \<and> (\<forall>j<i. option_test rx msg (options r ! j) = Inr False)))"
proof (intro conjI allI impI)
  fix k
  assume "rule_test rx r msg = Inr k"
  then have "findIndex (option_test rx msg) (options r) 0 = Inr k"
    by (simp add: rule_test_def)
  from findIndex_returns [OF this]
  show "(k = - 1 \<and> (\<forall>opt\<in>set (options r). \<not> selects rx msg opt))
      \<or> (\<exists>i<length (options r). k = int i \<and> selects rx msg (options r ! i)
            \<and> (\<forall>j<i. \<not> selects rx msg (options r ! j)))"
  proof
    assume "k = - 1 \<and> (\<forall>x\<in>set (options r). option_test rx msg x = Inr False)"
    then have "k = - 1 \<and> (\<forall>opt\<in>set (options r). \<not> selects rx msg opt)"
      using option_test_value by blast
    then show ?thesis by blast
  next
    assume "\<exists>j<length (options r). k = int (0 + j)
        \<and> option_test rx msg (options r ! j) = Inr True
        \<and> (\<forall>l<j. option_test rx msg (options r ! l) = Inr False)"
    then obtain j where j: "j < length (options r)" "k = int j"
        "option_test rx msg (options r ! j) = Inr True"
        "\<forall>l<j. option_test rx msg (options r ! l) = Inr False"
      by auto
    from j(3) have "selects rx msg (options r ! j)"
      using option_test_value by blast
    moreover from j(4) have "\<forall>l<j. \<not> selects rx msg (options r ! l)"
      using option_test_value by blast
    ultimately show ?thesis using j(1,2) by blast
  qed
next
  fix e
  show "rule_test rx r msg = Inl e \<longleftrightarrow>
        (\<exists>i<length (options r). option_test rx msg (options r ! i) = Inl e
            \<and> (\<forall>j<i. option_test rx msg (options r ! j) = Inr False))"
    unfolding rule_test_def by (rule findIndex_raises)
qed

theorem C5_test_first_selected_witness:
  "\<exists>r. newRule (\<lambda>v. JUndef) ''r''
         (JObj [(''topic'', JStr ''t''),
                (''cases'', JArr [JObj [(''match'', JObj [(''message'', JStr ''no'')])],
                                  JObj [(''match'', JObj [(''message'', JStr ''test'')]),
                                        (''match_not'', JObj [(''meta'', JObj [(''uri'', JStr ''x'')])])],
                                  JObj []])]) = Built r
       \<and> rule_test (\<lambda>re s. None) r
            (JObj [(''message'', JStr ''test''), (''meta'', JObj [(''uri'', JStr ''y'')])]) = Inr 1
       \<and> selects (\<lambda>re s. None)
            (JObj [(''message'', JStr ''test''), (''meta'', JObj [(''uri'', JStr ''y'')])]) (options r ! 1)
       \<and> \<not> selects (\<lambda>re s. None)
            (JObj [(''message'', JStr ''test''), (''meta'', JObj [(''uri'', JStr ''y'')])]) (options r ! 0)
       \<and> rule_test (\<lambda>re s. None) r (JObj [(''message'', JStr ''test'')]) = Inl TypeError
       \<and> (\<exists>i<length (options r).
             option_test (\<lambda>re s. None) (JObj [(''message'', JStr ''test'')]) (options r ! i) = Inl TypeError
             \<and> (\<forall>j<i. option_test (\<lambda>re s. None) (JObj [(''message'', JStr ''test'')]) (options r ! j)
                   = Inr False))"
proof -
  let ?s = "JObj [(''topic'', JStr ''t''),
                (''cases'', JArr [JObj [(''match'', JObj [(''message'', JStr ''no'')])],
                                  JObj [(''match'', JObj [(''message'', JStr ''test'')]),
                                        (''match_not'', JObj [(''meta'', JObj [(''uri'', JStr ''x'')])])],
                                  JObj []])]"
  let ?e = "JObj [(''message'', JStr ''test''), (''meta'', JObj [(''uri'', JStr ''y'')])]"
  let ?e' = "JObj [(''message'', JStr ''test'')]"
  let ?rx = "(\<lambda>re s. None) :: engine"
  let ?opts = "[\<lparr>exec = None, match = Code [AEq [''message''] (JStr ''no'')], expand = Some [(''message'', BVal (JStr ''no''))], match_not = Always False\<rparr>,
       \<lparr>exec = None, match = Code [AEq [''message''] (JStr ''test'')], expand = Some [(''message'', BVal (JStr ''test''))], match_not = Code [AEq [''meta'', ''uri''] (JStr ''x'')]\<rparr>,
       \<lparr>exec = None, match = Always True, expand = None, match_not = Always False\<rparr>]"
  have "built (newRule (\<lambda>v. JUndef) ''r'' ?s)"
    by code_simp
  then obtain r where r: "newRule (\<lambda>v. JUndef) ''r'' ?s = Built r"
    by (cases "newRule (\<lambda>v. JUndef) ''r'' ?s") auto
  have "(case newRule (\<lambda>v. JUndef) ''r'' ?s of Built r \<Rightarrow> options r | _ \<Rightarrow> []) = ?opts"
    by code_simp
  with r have o: "options r = ?opts" by simp
  have t1: "rule_test ?rx r ?e = Inr 1"
    unfolding rule_test_def o by (simp add: option_test_def)
  have t2: "rule_test ?rx r ?e' = Inl TypeError"
    unfolding rule_test_def o by (simp add: option_test_def)
  note t = C5_test_first_selected [of ?rx r ?e]
  note t' = C5_test_first_selected [of ?rx r ?e']
  from t t1 have "(\<exists>i<length (options r). (1::int) = int i \<and> selects ?rx ?e (options r ! i)
            \<and> (\<forall>j<i. \<not> selects ?rx ?e (options r ! j)))"
    by fastforce
  then obtain i where i: "(1::int) = int i" "selects ?rx ?e (options r ! i)"
      "\<forall>j<i. \<not> selects ?rx ?e (options r ! j)"
    by blast
  from i(1) have "i = 1" by simp
  with i have s: "selects ?rx ?e (options r ! 1)" "\<not> selects ?rx ?e (options r ! 0)"
    by simp_all
  from t' t2 have "\<exists>i<length (options r). option_test ?rx ?e' (options r ! i) = Inl TypeError
             \<and> (\<forall>j<i. option_test ?rx ?e' (options r ! j) = Inr False)"
    by blast
  with r t1 t2 s show ?thesis by blast
qed

end
